theory Spec2Isabelle
  imports Complex_Main "HOL-Library.Sublist" "HOL-Library.AList"
begin

section \<open>Text\<close>

text \<open>
  A Python \<open>str\<close> is a sequence of code points.  Text that enters the program (utterances,
  retrieved passages, slot values) is modelled as \<open>string\<close>, one \<open>char\<close> per code point, so
  the model covers the code points below 256 (Latin-1); \<open>length\<close> counts what Python's
  \<open>len\<close> counts.  The character classes below are those of CPython for this range.
\<close>

definition code :: "char \<Rightarrow> nat" where
  "code c = of_char c"

definition is_space :: "char \<Rightarrow> bool" where
  \<comment> \<open>\<open>str.isspace\<close>, the class stripped by \<open>str.strip()\<close> and matched by \<open>\s\<close>\<close>
  "is_space c = (let n = code c in
     (9 \<le> n \<and> n \<le> 13) \<or> (28 \<le> n \<and> n \<le> 32) \<or> n = 133 \<or> n = 160)"

definition is_decimal :: "char \<Rightarrow> bool" where
  \<comment> \<open>\<open>\d\<close>: the decimal digits\<close>
  "is_decimal c = (let n = code c in 48 \<le> n \<and> n \<le> 57)"

definition isdigit :: "char \<Rightarrow> bool" where
  \<comment> \<open>\<open>str.isdigit\<close>: the decimal digits and the superscripts 1, 2, 3\<close>
  "isdigit c = (let n = code c in (48 \<le> n \<and> n \<le> 57) \<or> n = 178 \<or> n = 179 \<or> n = 185)"

definition is_upper_az :: "char \<Rightarrow> bool" where
  "is_upper_az c = (let n = code c in 65 \<le> n \<and> n \<le> 90)"

definition is_lower_az :: "char \<Rightarrow> bool" where
  "is_lower_az c = (let n = code c in 97 \<le> n \<and> n \<le> 122)"

definition is_az :: "char \<Rightarrow> bool" where
  \<comment> \<open>\<open>[A-Za-z]\<close>\<close>
  "is_az c = (is_upper_az c \<or> is_lower_az c)"

definition is_word :: "char \<Rightarrow> bool" where
  \<comment> \<open>\<open>\w\<close>: alphanumeric (\<open>str.isalnum\<close>) or underscore\<close>
  "is_word c = (let n = code c in
     is_az c \<or> is_decimal c \<or> n = 95 \<or> n = 170 \<or> n = 178 \<or> n = 179 \<or> n = 181 \<or>
     n = 185 \<or> n = 186 \<or> n = 188 \<or> n = 189 \<or> n = 190 \<or>
     (192 \<le> n \<and> n \<le> 214) \<or> (216 \<le> n \<and> n \<le> 246) \<or> 248 \<le> n)"

definition lower_char :: "char \<Rightarrow> char" where
  "lower_char c = (let n = code c in
     if (65 \<le> n \<and> n \<le> 90) \<or> (192 \<le> n \<and> n \<le> 214) \<or> (216 \<le> n \<and> n \<le> 222)
     then char_of (n + 32) else c)"

definition lower :: "string \<Rightarrow> string" where
  "lower s = map lower_char s"

definition lstrip :: "string \<Rightarrow> string" where
  "lstrip s = dropWhile is_space s"

definition rstrip :: "string \<Rightarrow> string" where
  "rstrip s = rev (dropWhile is_space (rev s))"

definition strip :: "string \<Rightarrow> string" where
  "strip s = rstrip (lstrip s)"

text \<open>\<open>p in t\<close> on strings is \<^const>\<open>sublist\<close>: \<open>t\<close> has \<open>p\<close> as a contiguous part.\<close>

definition any_in :: "string list \<Rightarrow> string \<Rightarrow> bool" where
  \<comment> \<open>\<open>any(p in t for p in ps)\<close>\<close>
  "any_in ps t = list_ex (\<lambda>p. sublist p t) ps"

fun words_acc :: "string \<Rightarrow> string \<Rightarrow> string list" where
  \<comment> \<open>the first argument is the current word, reversed\<close>
  "words_acc cur [] = (if cur = [] then [] else [rev cur])"
| "words_acc cur (c # cs) =
     (if is_space c then (if cur = [] then words_acc [] cs else rev cur # words_acc [] cs)
      else words_acc (c # cur) cs)"

definition split_ws :: "string \<Rightarrow> string list" where
  \<comment> \<open>\<open>str.split()\<close>: the maximal runs of non-whitespace\<close>
  "split_ws s = words_acc [] s"

fun join :: "string \<Rightarrow> string list \<Rightarrow> string" where
  "join sep [] = []"
| "join sep [w] = w"
| "join sep (w # ws) = w @ sep @ join sep ws"

fun digit_val :: "char \<Rightarrow> int" where
  "digit_val c = int (code c) - 48"

definition int_of_digits :: "string \<Rightarrow> int" where
  \<comment> \<open>the value of a string of decimal digits\<close>
  "int_of_digits ds = foldl (\<lambda>a c. 10 * a + digit_val c) 0 ds"

definition int_max_str_digits :: nat where
  \<comment> \<open>CPython's default limit on the digits \<open>int(str)\<close> converts; beyond it, ValueError\<close>
  "int_max_str_digits = 4300"

fun digits_of :: "nat \<Rightarrow> nat \<Rightarrow> string" where
  \<comment> \<open>the last \<open>k\<close> decimal digits of \<open>n\<close>\<close>
  "digits_of 0 n = []"
| "digits_of (Suc k) n = digits_of k (n div 10) @ [char_of (48 + n mod 10)]"

fun ndigits :: "nat \<Rightarrow> nat \<Rightarrow> nat" where
  \<comment> \<open>the number of decimal digits of \<open>n\<close>; the first argument bounds the recursion\<close>
  "ndigits 0 n = 1"
| "ndigits (Suc f) n = (if n < 10 then 1 else Suc (ndigits f (n div 10)))"

definition dec :: "nat \<Rightarrow> string" where
  \<comment> \<open>\<open>str(n)\<close> for \<open>n \<ge> 0\<close>\<close>
  "dec n = digits_of (ndigits n n) n"

definition pad :: "nat \<Rightarrow> nat \<Rightarrow> string" where
  \<comment> \<open>decimal, zero-padded on the left to at least \<open>w\<close> digits\<close>
  "pad w n = replicate (w - length (dec n)) CHR ''0'' @ dec n"

definition str_int :: "int \<Rightarrow> string" where
  \<comment> \<open>\<open>str(i)\<close>\<close>
  "str_int i = (if i < 0 then CHR ''-'' # dec (nat (- i)) else dec (nat i))"

definition fmt_05d :: "int \<Rightarrow> string" where
  \<comment> \<open>\<open>f"{i:05d}"\<close>: minimum width 5, the sign counted in the width\<close>
  "fmt_05d i = (if i < 0 then CHR ''-'' # pad 4 (nat (- i)) else pad 5 (nat i))"

section \<open>Regular expressions\<close>

text \<open>
  The patterns of the source are terms of \<open>rx\<close>; \<open>rxm\<close> lists the outcomes of a match
  attempt at a position in the order in which a backtracking matcher tries them, so the
  head of the list is the match Python's \<open>re\<close> reports.  An outcome is the end position
  together with the spans of the groups that took part.
\<close>

datatype 'c rx =
    Sym "'c \<Rightarrow> bool"                        \<comment> \<open>one character of a class\<close>
  | Seq "'c rx" "'c rx"
  | Alt "'c rx" "'c rx"                    \<comment> \<open>\<open>a|b\<close>, left first\<close>
  | Opt "'c rx"                            \<comment> \<open>\<open>(?:a)?\<close>, greedy\<close>
  | Rep "'c \<Rightarrow> bool" nat "nat option" bool   \<comment> \<open>class\<open>{lo,hi}\<close>; greedy or lazy\<close>
  | Grp nat "'c rx"                        \<comment> \<open>capturing group\<close>
  | Bnd "'c \<Rightarrow> bool"                        \<comment> \<open>\<open>\b\<close> for the given word class\<close>
  | Bol                                    \<comment> \<open>\<open>^\<close>\<close>
  | Eol "'c \<Rightarrow> bool"                        \<comment> \<open>\<open>$\<close>: at the end, or before a final newline\<close>
  | Behind "'c \<Rightarrow> bool"                     \<comment> \<open>\<open>(?<=[class])\<close>\<close>
  | Eps

type_synonym caps = "(nat \<times> nat \<times> nat) list"

definition at_boundary :: "('c \<Rightarrow> bool) \<Rightarrow> 'c list \<Rightarrow> nat \<Rightarrow> bool" where
  "at_boundary w s i =
     ((0 < i \<and> i \<le> length s \<and> w (s ! (i - 1))) \<noteq> (i < length s \<and> w (s ! i)))"

fun rxm :: "'c rx \<Rightarrow> 'c list \<Rightarrow> nat \<times> caps \<Rightarrow> (nat \<times> caps) list" where
  "rxm (Sym p) s (i, g) = (if i < length s \<and> p (s ! i) then [(Suc i, g)] else [])"
| "rxm (Seq a b) s st = concat (map (rxm b s) (rxm a s st))"
| "rxm (Alt a b) s st = rxm a s st @ rxm b s st"
| "rxm (Opt a) s st = rxm a s st @ [st]"
| "rxm (Rep p lo hi greedy) s (i, g) =
     (let n = length (takeWhile p (drop i s));
          m = (case hi of None \<Rightarrow> n | Some h \<Rightarrow> min n h);
          ks = [lo..<Suc m]
      in map (\<lambda>k. (i + k, g)) (if greedy then rev ks else ks))"
| "rxm (Grp n a) s (i, g) = map (\<lambda>(e, g'). (e, (n, i, e) # g')) (rxm a s (i, g))"
| "rxm (Bnd w) s (i, g) = (if at_boundary w s i then [(i, g)] else [])"
| "rxm Bol s (i, g) = (if i = 0 then [(i, g)] else [])"
| "rxm (Eol nl) s (i, g) =
     (if i = length s \<or> (Suc i = length s \<and> nl (s ! i)) then [(i, g)] else [])"
| "rxm (Behind p) s (i, g) = (if 0 < i \<and> i \<le> length s \<and> p (s ! (i - 1)) then [(i, g)] else [])"
| "rxm Eps s st = [st]"

record rmatch =
  m_start :: nat
  m_end :: nat
  m_caps :: caps

definition match_at :: "'c rx \<Rightarrow> 'c list \<Rightarrow> nat \<Rightarrow> rmatch option" where
  "match_at r s i = (case rxm r s (i, []) of
       [] \<Rightarrow> None
     | (e, g) # _ \<Rightarrow> Some \<lparr>m_start = i, m_end = e, m_caps = g\<rparr>)"

fun search_from :: "'c rx \<Rightarrow> 'c list \<Rightarrow> nat \<Rightarrow> nat \<Rightarrow> rmatch option" where
  \<comment> \<open>the leftmost match starting at \<open>i\<close> or later; the first argument counts the starts left\<close>
  "search_from r s 0 i = None"
| "search_from r s (Suc k) i =
     (case match_at r s i of Some m \<Rightarrow> Some m | None \<Rightarrow> search_from r s k (Suc i))"

definition re_search :: "'c rx \<Rightarrow> 'c list \<Rightarrow> rmatch option" where
  \<comment> \<open>\<open>re.search\<close>\<close>
  "re_search r s = search_from r s (Suc (length s)) 0"

definition re_fullmatch :: "'c rx \<Rightarrow> 'c list \<Rightarrow> rmatch option" where
  \<comment> \<open>\<open>re.fullmatch\<close>: the first outcome that ends at the end of the string\<close>
  "re_fullmatch r s = (case filter (\<lambda>(e, g). e = length s) (rxm r s (0, [])) of
       [] \<Rightarrow> None
     | (e, g) # _ \<Rightarrow> Some \<lparr>m_start = 0, m_end = e, m_caps = g\<rparr>)"

definition group :: "'c list \<Rightarrow> rmatch \<Rightarrow> nat \<Rightarrow> 'c list option" where
  \<comment> \<open>\<open>m.group(n)\<close>; \<open>None\<close> when the group took no part in the match\<close>
  "group s m n = (case map_of (m_caps m) n of
       None \<Rightarrow> None
     | Some (b, e) \<Rightarrow> Some (take (e - b) (drop b s)))"

definition group_str :: "'c list \<Rightarrow> rmatch \<Rightarrow> nat \<Rightarrow> 'c list" where
  \<comment> \<open>\<open>m.group(n)\<close> for a group that is part of every match\<close>
  "group_str s m n = (case group s m n of None \<Rightarrow> [] | Some x \<Rightarrow> x)"

definition split_first :: "'c rx \<Rightarrow> 'c list \<Rightarrow> 'c list" where
  \<comment> \<open>\<open>re.split(r, s)[0]\<close> for a pattern that matches no empty string\<close>
  "split_first r s = (case re_search r s of None \<Rightarrow> s | Some m \<Rightarrow> take (m_start m) s)"

fun findall_from :: "'c rx \<Rightarrow> 'c list \<Rightarrow> nat \<Rightarrow> nat \<Rightarrow> 'c list list" where
  \<comment> \<open>\<open>re.findall\<close> for a pattern without groups: the successive non-overlapping matches.
      The first argument bounds the number of matches (each consumes a position).\<close>
  "findall_from r s 0 i = []"
| "findall_from r s (Suc k) i =
     (case search_from r s (Suc (length s) - i) i of
        None \<Rightarrow> []
      | Some m \<Rightarrow> take (m_end m - m_start m) (drop (m_start m) s)
                  # findall_from r s k (if m_start m < m_end m then m_end m else Suc (m_end m)))"

definition re_findall :: "'c rx \<Rightarrow> 'c list \<Rightarrow> 'c list list" where
  "re_findall r s = findall_from r s (Suc (length s)) 0"

fun seqs :: "'c rx list \<Rightarrow> 'c rx" where
  "seqs [] = Eps"
| "seqs [r] = r"
| "seqs (r # rs) = Seq r (seqs rs)"

fun alts :: "'c rx list \<Rightarrow> 'c rx" where
  "alts [] = Eps"
| "alts [r] = r"
| "alts (r # rs) = Alt r (alts rs)"

definition lit :: "string \<Rightarrow> char rx" where
  \<comment> \<open>a literal\<close>
  "lit s = seqs (map (\<lambda>c. Sym (\<lambda>x. x = c)) s)"

definition liti :: "string \<Rightarrow> char rx" where
  \<comment> \<open>a lower-case literal under \<open>re.IGNORECASE\<close>\<close>
  "liti s = seqs (map (\<lambda>c. Sym (\<lambda>x. lower_char x = c)) s)"

definition ch :: "char \<Rightarrow> char rx" where
  "ch c = Sym (\<lambda>x. x = c)"

definition one_of :: "string \<Rightarrow> char \<Rightarrow> bool" where
  "one_of cs c = (c \<in> set cs)"

abbreviation wb :: "char rx" where
  "wb \<equiv> Bnd is_word"

abbreviation star :: "(char \<Rightarrow> bool) \<Rightarrow> char rx" where
  "star p \<equiv> Rep p 0 None True"

abbreviation plus :: "(char \<Rightarrow> bool) \<Rightarrow> char rx" where
  "plus p \<equiv> Rep p 1 None True"

section \<open>Values, session state, environment\<close>

text \<open>
  The slots are a \<open>Dict[str, object]\<close>.  A slot value is one of the kinds of value the
  program stores: booleans, integers, floats, strings and the dictionary of claim counters
  (an association list in insertion order).  A float is represented by a rational: a float
  written as a decimal literal, or parsed from decimal text, by that decimal.  Outside
  \<open>calculate_premium\<close> floats are only stored and compared with such literals.
\<close>

datatype val =
    VBool bool
  | VInt int
  | VFloat rat
  | VStr string
  | VDict "(string \<times> int) list"

datatype py_error = ValueError | TypeError | KeyError | RuntimeError | OverflowError

text \<open>
  Response texts contain four code points above 255; \<open>uchar\<close> adds them to the characters.
\<close>

datatype uchar =
    Ch char
  | EmDash      \<comment> \<open>U+2014\<close>
  | RQuote      \<comment> \<open>U+2019\<close>
  | Euro        \<comment> \<open>U+20AC\<close>
  | Ellipsis    \<comment> \<open>U+2026\<close>

type_synonym ustr = "uchar list"

definition U :: "string \<Rightarrow> ustr" where
  "U s = map Ch s"

record SessionState =
  slots :: "string \<rightharpoonup> val"
  last_intent :: "val option"
  turns :: int

record TurnResult =
  response_text :: ustr
  end_call :: bool

text \<open>
  What a turn reads from outside the session: the clock, the year the module was loaded
  in, the retrieval collaborator, and the float operations of the runtime
  (\<open>fl x\<close> is the float nearest to \<open>x\<close>).
\<close>

record env =
  now :: "nat \<times> nat \<times> nat"                       \<comment> \<open>\<open>datetime.now()\<close>: year, month, day\<close>
  CURRENT_YEAR :: int
  retrieve :: "string \<Rightarrow> nat \<Rightarrow> py_error + string list"
      \<comment> \<open>\<open>rag.retrieve(query, top_k)\<close>: the texts of the chunks, best first\<close>
  fl :: "rat \<Rightarrow> rat"
  float_of_str :: "string \<Rightarrow> rat option"             \<comment> \<open>\<open>float(s)\<close>; \<open>None\<close> is ValueError\<close>
  repr_float :: "rat \<Rightarrow> string"                    \<comment> \<open>\<open>str(x)\<close> of a float\<close>
  repr_dict :: "(string \<times> int) list \<Rightarrow> string"      \<comment> \<open>\<open>str(d)\<close> of a dictionary\<close>

definition truthy :: "val \<Rightarrow> bool" where
  "truthy v = (case v of
       VBool b \<Rightarrow> b
     | VInt i \<Rightarrow> i \<noteq> 0
     | VFloat r \<Rightarrow> r \<noteq> 0
     | VStr s \<Rightarrow> s \<noteq> []
     | VDict d \<Rightarrow> d \<noteq> [])"

definition truthy_opt :: "val option \<Rightarrow> bool" where
  \<comment> \<open>truth of \<open>d.get(k)\<close>\<close>
  "truthy_opt v = (case v of None \<Rightarrow> False | Some x \<Rightarrow> truthy x)"

definition py_str :: "env \<Rightarrow> val \<Rightarrow> string" where
  \<comment> \<open>\<open>str(v)\<close>, also what an f-string prints\<close>
  "py_str E v = (case v of
       VStr s \<Rightarrow> s
     | VInt i \<Rightarrow> str_int i
     | VBool b \<Rightarrow> (if b then ''True'' else ''False'')
     | VFloat r \<Rightarrow> repr_float E r
     | VDict d \<Rightarrow> repr_dict E d)"

fun int_body_ok :: "string \<Rightarrow> bool" where
  \<comment> \<open>digits, single underscores only between digits\<close>
  "int_body_ok [] = False"
| "int_body_ok [c] = is_decimal c"
| "int_body_ok (c # d # cs) =
     (is_decimal c \<and> (if d = CHR ''_'' then int_body_ok cs else int_body_ok (d # cs)))"

definition int_of_str :: "string \<Rightarrow> py_error + int" where
  \<comment> \<open>\<open>int(s)\<close> of a string\<close>
  "int_of_str s =
     (let t = strip s;
          neg = (t \<noteq> [] \<and> hd t = CHR ''-'');
          body = (if t \<noteq> [] \<and> (hd t = CHR ''-'' \<or> hd t = CHR ''+'') then tl t else t);
          ds = filter is_decimal body
      in if int_body_ok body \<and> length ds \<le> int_max_str_digits
         then Inr (if neg then - int_of_digits ds else int_of_digits ds)
         else Inl ValueError)"

definition trunc :: "rat \<Rightarrow> int" where
  "trunc r = (if 0 \<le> r then \<lfloor>r\<rfloor> else \<lceil>r\<rceil>)"

definition py_int :: "val \<Rightarrow> py_error + int" where
  \<comment> \<open>\<open>int(v)\<close>\<close>
  "py_int v = (case v of
       VInt i \<Rightarrow> Inr i
     | VBool b \<Rightarrow> Inr (if b then 1 else 0)
     | VFloat r \<Rightarrow> Inr (trunc r)
     | VStr s \<Rightarrow> int_of_str s
     | VDict d \<Rightarrow> Inl TypeError)"

definition float_int_limit :: int where
  \<comment> \<open>the least integer that rounds beyond the largest float\<close>
  "float_int_limit = 2 ^ 1024 - 2 ^ 970"

definition float_of_int :: "(rat \<Rightarrow> rat) \<Rightarrow> int \<Rightarrow> py_error + rat" where
  \<comment> \<open>the conversion of an \<open>int\<close> to a float, as \<open>float(i)\<close> and \<open>i * 0.05\<close> perform it:
      OverflowError ("int too large to convert to float") beyond the range of floats\<close>
  "float_of_int f i =
     (if float_int_limit \<le> \<bar>i\<bar> then Inl OverflowError else Inr (f (of_int i)))"

definition py_float :: "env \<Rightarrow> val \<Rightarrow> py_error + rat" where
  \<comment> \<open>\<open>float(v)\<close>\<close>
  "py_float E v = (case v of
       VFloat r \<Rightarrow> Inr r
     | VInt i \<Rightarrow> float_of_int (fl E) i
     | VBool b \<Rightarrow> Inr (if b then 1 else 0)
     | VStr s \<Rightarrow> (case float_of_str E s of None \<Rightarrow> Inl ValueError | Some r \<Rightarrow> Inr r)
     | VDict d \<Rightarrow> Inl TypeError)"

definition has :: "(string \<rightharpoonup> val) \<Rightarrow> string \<Rightarrow> bool" where
  \<comment> \<open>\<open>k in slots\<close>\<close>
  "has m k = (m k \<noteq> None)"

definition pop :: "(string \<rightharpoonup> val) \<Rightarrow> string \<Rightarrow> (string \<rightharpoonup> val)" where
  \<comment> \<open>\<open>slots.pop(k, None)\<close>, for its effect\<close>
  "pop m k = m(k := None)"

section \<open>nlu.py\<close>

record IntentResult =
  intent :: val
  confidence :: rat

definition COVERAGE_ALIASES :: "(string \<times> string list) list" where
  "COVERAGE_ALIASES =
    [(''basic'', [''basic'', ''minimum'', ''liability'', ''low'', ''budget'', ''economy'',
                  ''starter'', ''cheapest'']),
     (''standard'', [''standard'', ''normal'', ''regular'', ''medium'', ''typical'', ''mid-tier'',
                     ''moderate'']),
     (''premium'', [''premium'', ''full'', ''comprehensive'', ''high'', ''best'', ''top-tier'',
                    ''ultimate''])]"

definition kw_report_claim :: "string list" where
  "kw_report_claim =
    [''report a claim'', ''file a claim'', ''accident'', ''crash'', ''stolen'', ''theft'', ''claim'']"

definition kw_premium_estimate :: "string list" where
  "kw_premium_estimate =
    [''premium'', ''quote'', ''cost'', ''price'', ''how much'', ''estimate'', '' need insurance'',
     ''want insurance'', ''need a quote'', ''get a quote'',
     ''cheapest insurance'', ''insurance cost'', ''insurance premium'', ''insurance quote'',
     ''insurance price'',
     ''option'', ''options'', ''cheap option'', ''cheap options'', ''cheapest option'',
     ''lowest price'', ''need a quote'', ''get a quote'']"

definition kw_handoff_human :: "string list" where
  "kw_handoff_human =
    [''agent'', ''representative'', ''call me back'', ''human'', ''talk to someone'',
     ''speak to someone'', ''customer service'', ''real person'', ''live person'', ''operator'']"

definition kw_compare_coverage :: "string list" where
  "kw_compare_coverage =
    [''compare'', ''comparison'', ''compare them'', ''show options'', ''show differences'',
     ''yes compare'', ''compare plans'', ''options'']"

definition detect_intent :: "string \<Rightarrow> val option \<Rightarrow> IntentResult" where
  "detect_intent user_text prev =
     (let t = strip (lower user_text) in
      if prev = Some (VStr ''premium_estimate'') \<and> any_in kw_premium_estimate t
        then \<lparr>intent = VStr ''premium_estimate'', confidence = 85 / 100\<rparr>
      else if any_in kw_compare_coverage t
        then \<lparr>intent = VStr ''compare_coverage'', confidence = 9 / 10\<rparr>
      else if any_in kw_premium_estimate t
        then \<lparr>intent = VStr ''premium_estimate'', confidence = 8 / 10\<rparr>
      else if any_in kw_report_claim t
        then \<lparr>intent = VStr ''report_claim'', confidence = 8 / 10\<rparr>
      else if any_in kw_handoff_human t
        then \<lparr>intent = VStr ''handoff_human'', confidence = 7 / 10\<rparr>
      else \<lparr>intent = VStr ''doc_qa'', confidence = 6 / 10\<rparr>)"

definition extract_int :: "char rx \<Rightarrow> string \<Rightarrow> int option" where
  \<comment> \<open>\<open>_extract_int\<close>; the patterns it is given are written for \<open>re.IGNORECASE\<close>\<close>
  "extract_int pattern text = (case re_search pattern text of
       None \<Rightarrow> None
     | Some m \<Rightarrow> (let ds = group_str text m 1 in
                  if length ds \<le> int_max_str_digits then Some (int_of_digits ds) else None))"

definition is_city_char :: "char \<Rightarrow> bool" where
  \<comment> \<open>\<open>[A-Za-z\- ]\<close> with the range from U+00C0 to U+017E added\<close>
  "is_city_char c = (is_az c \<or> 192 \<le> code c \<or> c = CHR ''-'' \<or> c = CHR '' '')"

definition rx_hp :: "char rx" where
  \<comment> \<open>\<open>(\d+)\s*(?:hp|horsepower)\<close>, IGNORECASE\<close>
  "rx_hp = seqs [Grp 1 (plus is_decimal), star is_space, Alt (liti ''hp'') (liti ''horsepower'')]"

definition rx_engine :: "char rx" where
  \<comment> \<open>\<open>\b(?:engine\s*size\s*(?:is|=)\s*)?(\d\.\d)\s*(?:l|litre|liter)?\b\<close>\<close>
  "rx_engine = seqs [wb,
      Opt (seqs [lit ''engine'', star is_space, lit ''size'', star is_space,
                 Alt (lit ''is'') (lit ''=''), star is_space]),
      Grp 1 (seqs [Sym is_decimal, ch CHR ''.'', Sym is_decimal]),
      star is_space,
      Opt (alts [lit ''l'', lit ''litre'', lit ''liter'']),
      wb]"

definition rx_city :: "char rx" where
  \<comment> \<open>\<open>\b(?:in|city)\s+(C{2,})\<close>, \<open>C\<close> the class \<open>is_city_char\<close>\<close>
  "rx_city = seqs [wb, Alt (lit ''in'') (lit ''city''), plus is_space,
                   Grp 1 (Rep is_city_char 2 None True)]"

definition rx_year :: "char rx" where
  \<comment> \<open>\<open>\b(19[5-9]\d|20[0-2]\d)\b\<close>\<close>
  "rx_year = seqs [wb,
      Grp 1 (Alt (seqs [lit ''19'', Sym (one_of ''56789''), Sym is_decimal])
                 (seqs [lit ''20'', Sym (one_of ''012''), Sym is_decimal])),
      wb]"

definition rx_bare_number :: "char rx" where
  \<comment> \<open>\<open>^\s*(\d{1,4})\s*$\<close>, IGNORECASE\<close>
  "rx_bare_number = seqs [Bol, star is_space, Grp 1 (Rep is_decimal 1 (Some 4) True),
                          star is_space, Eol (\<lambda>c. c = CHR 0x0A)]"

definition rx_age :: "char rx" where
  \<comment> \<open>\<open>(\d+)\s*(?:year|yr)[s]?\s*(?:old)?\<close>, IGNORECASE\<close>
  "rx_age = seqs [Grp 1 (plus is_decimal), star is_space, Alt (liti ''year'') (liti ''yr''),
                  Opt (liti ''s''), star is_space, Opt (liti ''old'')]"

definition rx_clause_end :: "char rx" where
  \<comment> \<open>\<open>[,.!?;]\<close>\<close>
  "rx_clause_end = Sym (one_of '',.!?;'')"

definition dec_float :: "string \<Rightarrow> rat" where
  \<comment> \<open>\<open>float(s)\<close> for \<open>s\<close> of the form \<open>d\<close> or \<open>d.d\<close>\<close>
  "dec_float s = (case s of
       [a] \<Rightarrow> of_int (digit_val a)
     | [a, p, b] \<Rightarrow> of_int (digit_val a) + of_int (digit_val b) / 10
     | _ \<Rightarrow> 0)"

definition extract_entities :: "string \<Rightarrow> (string \<rightharpoonup> val)" where
  "extract_entities user_text =
     (let t = strip user_text;
          tl = lower t;
          out = Map.empty;
          out = (case List.find (\<lambda>(level, words). any_in words tl) COVERAGE_ALIASES of
                   None \<Rightarrow> out
                 | Some (level, words) \<Rightarrow> out(''coverage_level'' \<mapsto> VStr level));
          out = (case extract_int rx_hp t of
                   None \<Rightarrow> out
                 | Some hp \<Rightarrow> out(''horsepower'' \<mapsto> VInt hp));
          out = (case re_search rx_engine tl of
                   None \<Rightarrow> out
                 | Some m \<Rightarrow> (let es = dec_float (group_str tl m 1) in
                              if 8 / 10 \<le> es \<and> es \<le> 8 then out(''engine_size_l'' \<mapsto> VFloat es)
                              else out));
          out = (case re_search rx_city t of
                   None \<Rightarrow> out
                 | Some m \<Rightarrow>
                     (let city = strip (split_first rx_clause_end (strip (group_str t m 1)));
                          city = (if lower city \<in> set [''ljublajan'', ''ljublijana'', ''ljubljana'']
                                  then ''Ljubljana'' else city)
                      in out(''city'' \<mapsto> VStr city)));
          out = (case re_search rx_year tl of
                   None \<Rightarrow> out
                 | Some m \<Rightarrow> out(''vehicle_year'' \<mapsto> VInt (int_of_digits (group_str tl m 1))));
          out = (case extract_int rx_bare_number t of
                   None \<Rightarrow> out
                 | Some bare_number \<Rightarrow>
                     if 1950 \<le> bare_number \<and> bare_number \<le> 2025
                       then out(''vehicle_year'' \<mapsto> VInt bare_number)
                     else if 0 < bare_number \<and> bare_number \<le> 60
                       then out(''vehicle_age'' \<mapsto> VInt bare_number)
                     else out);
          out = (case extract_int rx_age t of
                   None \<Rightarrow> out
                 | Some age \<Rightarrow> out(''vehicle_age'' \<mapsto> VInt age))
      in out)"

section \<open>premium.py\<close>

record PremiumResult =
  monthly_eur :: rat
  breakdown :: "(string \<times> rat) list"

definition round_half_even :: "rat \<Rightarrow> int" where
  "round_half_even y = (let f = \<lfloor>y\<rfloor>; d = y - of_int f in
     if d < 1 / 2 then f else if 1 / 2 < d then f + 1 else if even f then f else f + 1)"

definition round2 :: "(rat \<Rightarrow> rat) \<Rightarrow> rat \<Rightarrow> rat" where
  \<comment> \<open>\<open>round(x, 2)\<close>: the float nearest to the nearest multiple of 0.01, ties to even\<close>
  "round2 f x = f (of_int (round_half_even (x * 100)) / 100)"

definition city_factor_map :: "(string \<times> rat) list" where
  "city_factor_map =
     [(''ljubljana'', 120 / 100), (''maribor'', 115 / 100), (''celje'', 110 / 100),
      (''koper'', 105 / 100)]"

definition coverage_factor_map :: "(string \<times> rat) list" where
  "coverage_factor_map = [(''basic'', 80 / 100), (''standard'', 90 / 100), (''premium'', 1)]"

definition calculate_premium ::
  "(rat \<Rightarrow> rat) \<Rightarrow> int \<Rightarrow> int \<Rightarrow> string \<Rightarrow> string \<Rightarrow> py_error + PremiumResult" where
  \<comment> \<open>the first argument is the float rounding; every literal and every operation goes
      through it.  A product beyond the range of floats is \<open>inf\<close> in Python, which the
      rationals do not represent; the conversion of an \<open>int\<close> beyond it raises.\<close>
  "calculate_premium f vehicle_age horsepower city coverage_level =
     (let base = f 25 in
      case float_of_int f (max 0 (vehicle_age - 3)) of
        Inl e \<Rightarrow> Inl e
      | Inr age_excess \<Rightarrow>
      (let age_factor = f (f 1 + f (age_excess * f (5 / 100))) in
       case float_of_int f (max 0 (horsepower - 80)) of
         Inl e \<Rightarrow> Inl e
       | Inr power_excess \<Rightarrow>
       (let power_factor = f (f 1 + f (power_excess * f (1 / 100)));
            city_norm = lower (strip city);
            city_factor = (case map_of city_factor_map city_norm of
                             None \<Rightarrow> f (104 / 100) | Some x \<Rightarrow> f x)
        in case map_of coverage_factor_map coverage_level of
             None \<Rightarrow> Inl KeyError
           | Some cf \<Rightarrow>
               (let coverage_factor = f cf;
                    monthly = f (f (f (f (base * age_factor) * power_factor) * city_factor)
                                 * coverage_factor)
                in Inr \<lparr>monthly_eur = round2 f monthly,
                        breakdown = [(''base'', base), (''age_factor'', age_factor),
                                     (''power_factor'', power_factor),
                                     (''city_factor'', city_factor),
                                     (''coverage_factor'', coverage_factor)]\<rparr>))))"

section \<open>difflib.SequenceMatcher\<close>

text \<open>
  \<open>SequenceMatcher(None, a, b).ratio()\<close> of the standard library, without a junk
  predicate.  \<open>b2j\<close> lists the positions of an element in \<open>b\<close>, none for the elements the
  automatic heuristic drops (those occurring more than \<open>n div 100 + 1\<close> times in a \<open>b\<close> of
  at least 200 elements).
\<close>

definition popular :: "'a list \<Rightarrow> 'a \<Rightarrow> bool" where
  "popular b x = (200 \<le> length b \<and> length b div 100 + 1 < count_list b x)"

definition b2j :: "'a list \<Rightarrow> 'a \<Rightarrow> nat list" where
  "b2j b x = (if popular b x then [] else filter (\<lambda>j. b ! j = x) [0..<length b])"

definition j2len_get :: "(nat \<times> nat) list \<Rightarrow> nat \<Rightarrow> nat" where
  \<comment> \<open>\<open>j2len.get(j - 1, 0)\<close>\<close>
  "j2len_get d j = (if j = 0 then 0 else case map_of d (j - 1) of None \<Rightarrow> 0 | Some v \<Rightarrow> v)"

definition flm_step ::
  "nat \<Rightarrow> (nat \<times> nat) list \<Rightarrow> (nat \<times> nat) list \<times> nat \<times> nat \<times> nat \<Rightarrow> nat
   \<Rightarrow> (nat \<times> nat) list \<times> nat \<times> nat \<times> nat" where
  "flm_step i j2len = (\<lambda>(newj2len, besti, bestj, bestsize) j.
     let k = j2len_get j2len j + 1
     in ((j, k) # newj2len,
         if bestsize < k then (i + 1 - k, j + 1 - k, k) else (besti, bestj, bestsize)))"

definition flm_row ::
  "'a list \<Rightarrow> 'a list \<Rightarrow> nat \<Rightarrow> nat \<Rightarrow> (nat \<times> nat) list \<times> nat \<times> nat \<times> nat \<Rightarrow> nat
   \<Rightarrow> (nat \<times> nat) list \<times> nat \<times> nat \<times> nat" where
  "flm_row a b blo bhi = (\<lambda>(j2len, best) i.
     foldl (flm_step i j2len) ([], best) (filter (\<lambda>j. blo \<le> j \<and> j < bhi) (b2j b (a ! i))))"

function ext_left :: "'a list \<Rightarrow> 'a list \<Rightarrow> nat \<Rightarrow> nat \<Rightarrow> nat \<times> nat \<times> nat \<Rightarrow> nat \<times> nat \<times> nat" where
  "ext_left a b alo blo (i, j, k) =
     (if alo < i \<and> blo < j \<and> a ! (i - 1) = b ! (j - 1)
      then ext_left a b alo blo (i - 1, j - 1, k + 1) else (i, j, k))"
  by pat_completeness auto
termination
  by (relation "measure (\<lambda>(a, b, alo, blo, i, j, k). i)") auto

function ext_right :: "'a list \<Rightarrow> 'a list \<Rightarrow> nat \<Rightarrow> nat \<Rightarrow> nat \<times> nat \<times> nat \<Rightarrow> nat \<times> nat \<times> nat" where
  "ext_right a b ahi bhi (i, j, k) =
     (if i + k < ahi \<and> j + k < bhi \<and> a ! (i + k) = b ! (j + k)
      then ext_right a b ahi bhi (i, j, k + 1) else (i, j, k))"
  by pat_completeness auto
termination
  by (relation "measure (\<lambda>(a, b, ahi, bhi, i, j, k). ahi - (i + k))") auto

declare ext_left.simps [simp del] ext_right.simps [simp del]

definition find_longest_match ::
  "'a list \<Rightarrow> 'a list \<Rightarrow> nat \<Rightarrow> nat \<Rightarrow> nat \<Rightarrow> nat \<Rightarrow> nat \<times> nat \<times> nat" where
  "find_longest_match a b alo ahi blo bhi =
     ext_right a b ahi bhi (ext_left a b alo blo
       (snd (foldl (flm_row a b blo bhi) ([], alo, blo, 0) [alo..<ahi])))"

fun matches :: "nat \<Rightarrow> 'a list \<Rightarrow> 'a list \<Rightarrow> nat \<Rightarrow> nat \<Rightarrow> nat \<Rightarrow> nat \<Rightarrow> nat" where
  \<comment> \<open>the total size of the matching blocks of \<open>a[alo:ahi]\<close> and \<open>b[blo:bhi]\<close>: the longest
      block, then the blocks to its left and to its right.  The first argument bounds
      the nesting, which is at most the length of the window.\<close>
  "matches 0 a b alo ahi blo bhi = 0"
| "matches (Suc n) a b alo ahi blo bhi =
     (case find_longest_match a b alo ahi blo bhi of (i, j, k) \<Rightarrow>
        if k = 0 then 0
        else k + (if alo < i \<and> blo < j then matches n a b alo i blo j else 0)
               + (if i + k < ahi \<and> j + k < bhi then matches n a b (i + k) ahi (j + k) bhi else 0))"

definition ratio :: "'a list \<Rightarrow> 'a list \<Rightarrow> rat" where
  "ratio a b =
     (let m = matches (Suc (length a)) a b 0 (length a) 0 (length b);
          len = length a + length b
      in if len \<noteq> 0 then 2 * of_nat m / of_nat len else 1)"

section \<open>dialogue.py: helpers\<close>

definition CANCEL_WORDS :: "string list" where
  "CANCEL_WORDS = [''cancel'', ''stop'', ''nevermind'', ''never mind'']"

definition EXIT_WORDS :: "string list" where
  "EXIT_WORDS = [''hang up'', ''goodbye'', ''bye'', ''exit'', ''quit'', ''stop'', ''end'',
                 ''terminate'', ''close'', ''disconnect'']"

definition DIGIT_WORDS :: "(string \<times> string) list" where
  "DIGIT_WORDS =
     [(''zero'', ''0''), (''oh'', ''0''), (''o'', ''0''), (''one'', ''1''), (''two'', ''2''),
      (''three'', ''3''), (''four'', ''4''), (''for'', ''4''), (''five'', ''5''), (''six'', ''6''),
      (''seven'', ''7''), (''eight'', ''8''), (''ate'', ''8''), (''nine'', ''9'')]"

definition HUMAN_FALLBACK :: string where
  "HUMAN_FALLBACK = ''I don't have enough information for more. '' @
     ''You can say 'human agent' to be connected to our service center or check our website.''"

definition looks_like_insurance_request :: "string \<Rightarrow> bool" where
  "looks_like_insurance_request t = any_in
     [''need insurance'', ''want insurance'', ''looking for insurance'', ''get insurance'',
      ''buy insurance'', ''insurance for my car''] t"

definition rx_token :: "char rx" where
  \<comment> \<open>\<open>[a-zA-Z]+|\d+\<close>\<close>
  "rx_token = Alt (plus is_az) (plus is_decimal)"

definition str_isdigit :: "string \<Rightarrow> bool" where
  \<comment> \<open>\<open>s.isdigit()\<close>\<close>
  "str_isdigit s = (s \<noteq> [] \<and> list_all isdigit s)"

fun spoken_tokens :: "string list \<Rightarrow> string list" where
  \<comment> \<open>the \<open>while\<close> loop of \<open>_spoken_digits_to_string\<close>: the list \<open>out\<close>\<close>
  "spoken_tokens [] = []"
| "spoken_tokens [tok] =
     (if str_isdigit tok then [tok]
      else (case map_of DIGIT_WORDS tok of Some d \<Rightarrow> [d] | None \<Rightarrow> []))"
| "spoken_tokens (tok # nxt # rest) =
     (if str_isdigit tok then tok # spoken_tokens (nxt # rest)
      else (case (if tok = ''double'' \<or> tok = ''triple'' then map_of DIGIT_WORDS nxt else None) of
              Some d \<Rightarrow> concat (replicate (if tok = ''double'' then 2 else 3) d) # spoken_tokens rest
            | None \<Rightarrow> (case map_of DIGIT_WORDS tok of
                         Some d \<Rightarrow> d # spoken_tokens (nxt # rest)
                       | None \<Rightarrow> spoken_tokens (nxt # rest))))"

definition raw_digits :: "string \<Rightarrow> string" where
  "raw_digits text = filter isdigit (lower text)"

definition spoken :: "string \<Rightarrow> string" where
  "spoken text = concat (spoken_tokens (re_findall rx_token (lower text)))"

definition spoken_digits_to_string :: "string \<Rightarrow> string" where
  "spoken_digits_to_string text =
     (if length (raw_digits text) \<le> length (spoken text) then spoken text else raw_digits text)"

definition extract_policy_number :: "string \<Rightarrow> string" where
  "extract_policy_number text =
     (let s = filter isdigit (spoken_digits_to_string text)
      in if 6 \<le> length s then s else [])"

definition contains_any :: "string \<Rightarrow> string list \<Rightarrow> bool" where
  "contains_any text phrases = any_in phrases (lower text)"

definition lj_variants :: "string list" where
  "lj_variants = [''ljublajan'', ''ljublijana'', ''ljubljana'', ''ljubljkana'', ''leobliana'',
                  ''liubljana'', ''lubljana'']"

definition known :: "(string \<times> string) list" where
  "known = [(''maribor'', ''Maribor''), (''celje'', ''Celje''), (''koper'', ''Koper'')]"

definition normalize_city :: "string \<Rightarrow> string" where
  "normalize_city city =
     (let raw = strip city;
          c = strip (lower raw)
      in if c = [] then raw
         else if c \<in> set lj_variants \<or> sublist ''ljubl'' c then ''Ljubljana''
         else if 75 / 100 \<le> ratio c ''ljubljana'' then ''Ljubljana''
         else (case map_of known c of
                 Some v \<Rightarrow> v
               | None \<Rightarrow> strip raw))"

definition u_is_space :: "uchar \<Rightarrow> bool" where
  "u_is_space c = (case c of Ch x \<Rightarrow> is_space x | _ \<Rightarrow> False)"

definition u_is_word :: "uchar \<Rightarrow> bool" where
  "u_is_word c = (case c of Ch x \<Rightarrow> is_word x | _ \<Rightarrow> False)"

definition u_strip :: "ustr \<Rightarrow> ustr" where
  "u_strip s = rev (dropWhile u_is_space (rev (dropWhile u_is_space s)))"

definition rx_sentence_end :: "char rx" where
  \<comment> \<open>\<open>(?<=[.!?])\s+\<close>\<close>
  "rx_sentence_end = Seq (Behind (one_of ''.!?'')) (plus is_space)"

definition first_sentence :: "string \<Rightarrow> nat \<Rightarrow> ustr" where
  "first_sentence text max_len =
     (let t = join '' '' (split_ws (strip text))
      in if t = [] then []
         else (let sent = split_first rx_sentence_end t
               in if max_len < length sent
                  then U (rstrip (take (max_len - 1) sent)) @ [Ellipsis]
                  else U sent))"

definition is_bad_sentence :: "ustr \<Rightarrow> bool" where
  \<comment> \<open>the pattern is \<open>[^\w]+\<close>\<close>
  "is_bad_sentence s0 =
     (let s = u_strip s0
      in length s < 12 \<or> s \<in> set [U ''.'', [Ellipsis]]
         \<or> re_fullmatch (Rep (\<lambda>c. \<not> u_is_word c) 1 None True) s \<noteq> None)"

definition looks_like_pricing :: "string \<Rightarrow> bool" where
  "looks_like_pricing t =
     any_in [''pricing'', ''prcing'', ''price'', ''cost'', ''quote'', ''premium'', ''how much''] t"

definition looks_like_claim_info_only :: "string \<Rightarrow> bool" where
  "looks_like_claim_info_only t =
     (let positives = [''claim'', ''claims'', ''claiming'', ''report'', ''reporting''];
          negatives = [''don't want to submit'', ''do not want to submit'', ''not submit'',
                       ''not to submit'', ''just info'', ''information'', ''explain'', ''tell me'']
      in any_in positives t \<and> any_in negatives t)"

definition COVERAGE_SUMMARY :: "(string \<times> string) list" where
  "COVERAGE_SUMMARY =
     [(''basic'', ''Basic: third-party liability only (covers damage/injury you cause to others).''),
      (''standard'', ''Standard: liability + collision/own-damage (deductible applies).''),
      (''premium'', ''Premium: broadest cover (liability + collision + theft/fire/weather) and '' @
                    ''optional add-ons like roadside assistance.'')]"

definition coverage_difference_answer :: string where
  "coverage_difference_answer =
     ''Differences: '' @
     the (map_of COVERAGE_SUMMARY ''basic'') @ '' '' @
     the (map_of COVERAGE_SUMMARY ''standard'') @ '' '' @
     the (map_of COVERAGE_SUMMARY ''premium'') @ '' '' @
     ''Do you want the cheapest option or the most coverage?''"

definition is_dissatisfied :: "string \<Rightarrow> bool" where
  "is_dissatisfied t = any_in
     [''not precise'', ''irrelevant'', ''wrong'', ''useless'', ''stupid'', ''idiot'',
      ''you are not helping'', ''what are you talking about'', ''why you don't provide'',
      ''why dont you provide'', ''why don't answer'', ''why dont answer''] t"

definition needed :: "string list" where
  \<comment> \<open>the list \<open>needed\<close> of \<open>_claim_missing_slots\<close>\<close>
  "needed = [''insurance_number'', ''injuries'', ''accident_city'', ''accident_date'',
             ''accident_description'', ''police_report'', ''vehicle_drivable'',
             ''third_party_involved'']"

definition claim_missing_slots :: "(string \<rightharpoonup> val) \<Rightarrow> string list" where
  "claim_missing_slots sl = filter (\<lambda>k. \<not> has sl k) needed"

definition ask_claim_question :: "string \<Rightarrow> string" where
  "ask_claim_question missing_key =
     (if missing_key = ''insurance_number'' then
        ''What is your insurance/policy number? (You can read it as it appears on your policy card.)''
      else if missing_key = ''injuries'' then
        ''Were there any injuries? Please say yes or no.''
      else if missing_key = ''accident_city'' then
        ''Which city did the accident happen in?''
      else if missing_key = ''accident_date'' then
        ''What date did it happen? You can say 'today', 'yesterday', or a date like 2025-12-22.''
      else if missing_key = ''accident_description'' then
        ''Briefly, what happened? One sentence is enough.''
      else if missing_key = ''police_report'' then
        ''Was the police notified? Please say yes or no. If yes, do you have a report/reference number?''
      else if missing_key = ''vehicle_drivable'' then
        ''Is your car drivable right now? Please say yes or no.''
      else if missing_key = ''third_party_involved'' then
        ''Were other vehicles involved? Please say yes or no.''
      else ''Can you tell me a bit more?'')"

definition rx_no :: "char rx" where
  \<comment> \<open>\<open>\b(no|nope|nah|not)\b\<close>\<close>
  "rx_no = seqs [wb, Grp 1 (alts [lit ''no'', lit ''nope'', lit ''nah'', lit ''not'']), wb]"

definition rx_yes :: "char rx" where
  \<comment> \<open>\<open>\b(yes|yeah|yep|y|sure|correct|ok)\b\<close>\<close>
  "rx_yes = seqs [wb, Grp 1 (alts [lit ''yes'', lit ''yeah'', lit ''yep'', lit ''y'', lit ''sure'',
                                   lit ''correct'', lit ''ok'']), wb]"

definition parse_yes_no :: "string \<Rightarrow> bool option" where
  "parse_yes_no text =
     (let t = lower (strip text)
      in if t \<in> set [''np'', ''nop'', ''noo'', ''nahh''] then Some False
         else if re_search rx_no t \<noteq> None then Some False
         else if re_search rx_yes t \<noteq> None then Some True
         else None)"

definition strftime_ymd :: "nat \<times> nat \<times> nat \<Rightarrow> string" where
  \<comment> \<open>\<open>strftime("%Y-%m-%d")\<close>\<close>
  "strftime_ymd d = (case d of (y, m, dd) \<Rightarrow> pad 4 y @ ''-'' @ pad 2 m @ ''-'' @ pad 2 dd)"

definition strftime_ym :: "nat \<times> nat \<times> nat \<Rightarrow> string" where
  \<comment> \<open>\<open>strftime("%Y%m")\<close>\<close>
  "strftime_ym d = (case d of (y, m, dd) \<Rightarrow> pad 4 y @ pad 2 m)"

definition leap :: "nat \<Rightarrow> bool" where
  "leap y = (y mod 4 = 0 \<and> (y mod 100 \<noteq> 0 \<or> y mod 400 = 0))"

definition days_in_month :: "nat \<Rightarrow> nat \<Rightarrow> nat" where
  "days_in_month y m =
     (if m = 2 then (if leap y then 29 else 28)
      else if m = 4 \<or> m = 6 \<or> m = 9 \<or> m = 11 then 30 else 31)"

definition day_before :: "nat \<times> nat \<times> nat \<Rightarrow> nat \<times> nat \<times> nat" where
  \<comment> \<open>\<open>d - timedelta(days=1)\<close>, for a date after 0001-01-01\<close>
  "day_before d = (case d of (y, m, dd) \<Rightarrow>
     if 1 < dd then (y, m, dd - 1)
     else if 1 < m then (y, m - 1, days_in_month y (m - 1))
     else (y - 1, 12, 31))"

definition rx_date :: "char rx" where
  \<comment> \<open>\<open>\b(\d{4})-(\d{2})-(\d{2})\b\<close>\<close>
  "rx_date = seqs [wb, Grp 1 (Rep is_decimal 4 (Some 4) True), ch CHR ''-'',
                   Grp 2 (Rep is_decimal 2 (Some 2) True), ch CHR ''-'',
                   Grp 3 (Rep is_decimal 2 (Some 2) True), wb]"

definition parse_date :: "env \<Rightarrow> string \<Rightarrow> string option" where
  "parse_date E text =
     (let t = lower (strip text);
          today = now E
      in if sublist ''today'' t then Some (strftime_ymd today)
         else if sublist ''yesterday'' t then Some (strftime_ymd (day_before today))
         else (case re_search rx_date t of
                 Some m \<Rightarrow> Some (group_str t m 1 @ ''-'' @ group_str t m 2 @ ''-'' @ group_str t m 3)
               | None \<Rightarrow> None))"

definition rx_location :: "char rx" where
  \<comment> \<open>\<open>\bin\s+(C+?)(?:,\s*(C+))?(?:[.!?]|$)\<close>, IGNORECASE, \<open>C\<close> the class \<open>is_city_char\<close>\<close>
  "rx_location = seqs [wb, liti ''in'', plus is_space,
      Grp 1 (Rep is_city_char 1 None False),
      Opt (seqs [ch CHR '','', star is_space, Grp 2 (plus is_city_char)]),
      Alt (Sym (one_of ''.!?'')) (Eol (\<lambda>c. c = CHR 0x0A))]"

definition extract_accident_location :: "string \<Rightarrow> string option \<times> string option" where
  "extract_accident_location text =
     (let t = strip text
      in case re_search rx_location t of
           None \<Rightarrow> (None, None)
         | Some m \<Rightarrow>
             (let part1 = strip (group_str t m 1);
                  part2 = strip (case group t m 2 of None \<Rightarrow> [] | Some x \<Rightarrow> x)
              in if part2 \<noteq> [] then (Some part1, Some (normalize_city part2))
                 else (None, Some (normalize_city part1))))"

definition is_alnum :: "char \<Rightarrow> bool" where
  \<comment> \<open>\<open>[A-Za-z0-9]\<close>\<close>
  "is_alnum c = (is_az c \<or> is_decimal c)"

definition is_alnum_dash :: "char \<Rightarrow> bool" where
  \<comment> \<open>\<open>[A-Za-z0-9\-]\<close>\<close>
  "is_alnum_dash c = (is_alnum c \<or> c = CHR ''-'')"

definition rx_ref :: "char rx" where
  \<comment> \<open>\<open>\b(?:report|ref|reference|case)\s*#?\s*([A-Za-z0-9\-]+)\b\<close>, IGNORECASE\<close>
  "rx_ref = seqs [wb, alts [liti ''report'', liti ''ref'', liti ''reference'', liti ''case''],
                  star is_space, Opt (ch CHR ''#''), star is_space,
                  Grp 1 (plus is_alnum_dash), wb]"

definition truthy_str :: "string option \<Rightarrow> bool" where
  \<comment> \<open>truth of an \<open>Optional[str]\<close>\<close>
  "truthy_str x = (case x of None \<Rightarrow> False | Some s \<Rightarrow> s \<noteq> [])"

definition claim_update_from_text :: "env \<Rightarrow> string \<Rightarrow> (string \<rightharpoonup> val) \<Rightarrow> (string \<rightharpoonup> val)" where
  "claim_update_from_text E user_text sl0 =
     (let tl = strip (lower user_text);
          (area, city) = extract_accident_location user_text;
          sl = (if truthy_str city \<and> \<not> has sl0 ''accident_city''
                then sl0(''accident_city'' \<mapsto> VStr (the city)) else sl0);
          sl = (if truthy_str area \<and> \<not> has sl ''accident_area''
                then sl(''accident_area'' \<mapsto> VStr (the area)) else sl);
          d = parse_date E user_text;
          sl = (if truthy_str d \<and> \<not> has sl ''accident_date''
                then sl(''accident_date'' \<mapsto> VStr (the d)) else sl);
          yn = parse_yes_no user_text;
          sl = (if yn = None \<and> 8 < length (strip user_text) \<and> \<not> has sl ''accident_description''
                   \<and> any_in [''accident'', ''crash'', ''collision'', ''rear-ended'', ''hit'',
                              ''bumped''] tl
                then sl(''accident_description'' \<mapsto> VStr (strip user_text)) else sl)
      in case re_search rx_ref user_text of
           Some m \<Rightarrow> sl(''police_report_ref'' \<mapsto> VStr (group_str user_text m 1))
         | None \<Rightarrow> sl)"

definition rx_policy :: "char rx" where
  \<comment> \<open>\<open>\b([A-Za-z0-9][A-Za-z0-9\-]{4,})\b\<close>\<close>
  "rx_policy = seqs [wb, Grp 1 (Seq (Sym is_alnum) (Rep is_alnum_dash 4 None True)), wb]"

definition claim_apply_expected_answer ::
  "env \<Rightarrow> string \<Rightarrow> (string \<rightharpoonup> val) \<Rightarrow> py_error + (string \<rightharpoonup> val)" where
  "claim_apply_expected_answer E user_text sl =
     (case sl ''claim_expected'' of
        None \<Rightarrow> Inr sl
      | Some expected \<Rightarrow>
         if \<not> truthy expected then Inr sl
         else
          (let yn = parse_yes_no user_text;
               d = parse_date E user_text
           in if expected \<in> set [VStr ''injuries'', VStr ''vehicle_drivable'',
                                  VStr ''third_party_involved''] then
                (case yn of
                   Some b \<Rightarrow> Inr (pop (sl((case expected of VStr k \<Rightarrow> k | _ \<Rightarrow> []) \<mapsto> VBool b))
                                     ''claim_expected'')
                 | None \<Rightarrow> Inr sl)
              else if expected = VStr ''police_report'' then
                (case yn of
                   Some b \<Rightarrow>
                     (let sl = sl(''police_report'' \<mapsto> VBool b);
                          sl = (if b then (case re_search rx_ref user_text of
                                             Some m \<Rightarrow> sl(''police_report_ref'' \<mapsto>
                                                          VStr (group_str user_text m 1))
                                           | None \<Rightarrow> sl)
                                else sl)
                      in Inr (pop sl ''claim_expected''))
                 | None \<Rightarrow> Inr sl)
              else if expected = VStr ''accident_date'' then
                (if truthy_str d
                 then Inr (pop (sl(''accident_date'' \<mapsto> VStr (the d))) ''claim_expected'')
                 else Inr sl)
              else if expected = VStr ''accident_city'' then
                (let (area, city) = extract_accident_location user_text;
                     city = (if \<not> truthy_str city then
                               (let candidate = strip (split_first rx_clause_end (strip user_text))
                                in if 2 \<le> length candidate \<and> length candidate \<le> 40
                                      \<and> re_search (Sym is_decimal) candidate = None
                                   then Some (normalize_city candidate) else city)
                             else city)
                 in if truthy_str city then
                      (let sl = sl(''accident_city'' \<mapsto> VStr (the city));
                           sl = (if truthy_str area then sl(''accident_area'' \<mapsto> VStr (the area))
                                 else sl)
                       in Inr (pop sl ''claim_expected''))
                    else Inr sl)
              else if (case expected of VDict x \<Rightarrow> True | _ \<Rightarrow> False) then Inl TypeError
              else if expected \<in> set [VStr ''insurance_number'', VStr ''policy_number''] then
                (let txt = strip user_text;
                     pn = extract_policy_number txt
                 in if pn \<noteq> [] then Inr (pop (sl(''insurance_number'' \<mapsto> VStr pn)) ''claim_expected'')
                    else (case re_search rx_policy txt of
                            Some m \<Rightarrow> Inr (pop (sl(''insurance_number'' \<mapsto> VStr (group_str txt m 1)))
                                             ''claim_expected'')
                          | None \<Rightarrow> Inr sl))
              else if expected = VStr ''accident_description'' then
                (let txt = strip user_text
                 in if 5 < length txt
                    then Inr (pop (sl(''accident_description'' \<mapsto> VStr txt)) ''claim_expected'')
                    else Inr sl)
              else Inr sl))"

definition generate_claim_number :: "env \<Rightarrow> SessionState \<Rightarrow> string \<times> SessionState" where
  "generate_claim_number E state =
     (let yyyymm = strftime_ym (now E);
          counters = (case slots state ''claim_counters'' of
                        Some (VDict d) \<Rightarrow> d
                      | _ \<Rightarrow> []);
          n = (case map_of counters yyyymm of None \<Rightarrow> 0 | Some v \<Rightarrow> v) + 1;
          counters = AList.update yyyymm n counters
      in (yyyymm @ fmt_05d n,
          state\<lparr>slots := (slots state)(''claim_counters'' \<mapsto> VDict counters)\<rparr>))"

definition estimate_hp_from_engine_size :: "rat \<Rightarrow> int \<times> string" where
  "estimate_hp_from_engine_size engine_size_l =
     (if engine_size_l \<le> 1 then (95, ''estimated from engine size'')
      else if engine_size_l \<le> 12 / 10 then (105, ''estimated from engine size'')
      else if engine_size_l \<le> 14 / 10 then (120, ''estimated from engine size'')
      else if engine_size_l \<le> 16 / 10 then (135, ''estimated from engine size'')
      else if engine_size_l \<le> 18 / 10 then (155, ''estimated from engine size'')
      else if engine_size_l \<le> 2 then (180, ''estimated from engine size'')
      else (200, ''estimated from engine size''))"

definition missing_premium_slots :: "(string \<rightharpoonup> val) \<Rightarrow> string list" where
  "missing_premium_slots sl =
     filter (\<lambda>k. \<not> has sl k) [''vehicle_age'', ''horsepower'', ''city'', ''coverage_level'']"

definition ask_one_missing :: "string list \<Rightarrow> (string \<rightharpoonup> val) \<Rightarrow> ustr" where
  "ask_one_missing missing sl =
     (case missing of
        [] \<Rightarrow> U ''What detail should we adjust?''
      | k # _ \<Rightarrow>
         if k = ''vehicle_age'' then
           U ''What'' @ [RQuote] @ U ''s the vehicle year (e.g., 2010) or age in years?''
         else if k = ''horsepower'' then
           (if has sl ''engine_size_l'' then
              U ''I can estimate horsepower from engine size'' @ [EmDash] @
              U ''do you want that, or do you know the exact HP?''
            else
              U ''About how many horsepower is the vehicle? If you don'' @ [RQuote] @
              U ''t know, tell me engine size (e.g., 1.4 / 1.6).'')
         else if k = ''city'' then U ''Which city is the vehicle primarily used in?''
         else if k = ''coverage_level'' then U ''Do you want basic, standard, or premium coverage?''
         else U (''Could you tell me '' @ k @ ''?''))"

definition get_int :: "(string \<rightharpoonup> val) \<Rightarrow> string \<Rightarrow> py_error + int" where
  \<comment> \<open>\<open>int(slots.get(k, 0))\<close>\<close>
  "get_int sl k = (case sl k of None \<Rightarrow> Inr 0 | Some v \<Rightarrow> py_int v)"

definition doc_candidate :: "string list \<Rightarrow> ustr" where
  \<comment> \<open>\<open>_first_sentence(best.text, max_len=140) if (best and best.text) else ""\<close>,
      \<open>best\<close> the first chunk if there is one\<close>
  "doc_candidate docs = (case docs of
       [] \<Rightarrow> []
     | text # _ \<Rightarrow> if text \<noteq> [] then first_sentence text 140 else [])"

definition qa_answer_or_followup ::
  "string \<Rightarrow> string list \<Rightarrow> SessionState \<Rightarrow> py_error + ustr \<times> SessionState" where
  "qa_answer_or_followup user_text docs state =
     (let t = strip (lower user_text) in
      case get_int (slots state) ''qa_turns'' of
        Inl e \<Rightarrow> Inl e
      | Inr q \<Rightarrow>
      (let sl = (slots state)(''qa_turns'' \<mapsto> VInt (q + 1)) in
       case get_int sl ''qa_frustration'' of
         Inl e \<Rightarrow> Inl e
       | Inr f \<Rightarrow>
       (let fr = (if is_dissatisfied t then f + 1 else max 0 (f - 1));
            sl = sl(''qa_frustration'' \<mapsto> VInt fr);
            qa_turns = q + 1;
            website = (if qa_turns = 1
                       then U '' You can also review details on our website for the full wording.''
                       else []);
            human = (if 5 \<le> qa_turns \<and> 2 \<le> fr
                     then U '' If you'' @ [RQuote] @ U ''d rather speak to a person, type human.''
                     else [])
        in if looks_like_insurance_request t then
             Inr (U ''Sure '' @ [EmDash] @ U '' I can help you get car insurance. Let'' @ [RQuote] @
                  U ''s start with the vehicle year.'',
                  state\<lparr>slots := sl(''force_intent'' \<mapsto> VStr ''premium_estimate'')\<rparr>)
           else if looks_like_claim_info_only t then
             (let candidate = doc_candidate docs;
                  base = (if \<not> is_bad_sentence candidate then candidate
                          else U (''Claims info: you can report online/phone, then provide '' @
                                  ''incident details and evidence.''))
              in Inr (base @ website @
                      U '' What part of claims do you want (steps, documents, timelines, or coverage)?''
                      @ human,
                      state\<lparr>slots := sl\<rparr>))
           else if looks_like_pricing t then
             (let sl = sl(''force_intent'' \<mapsto> VStr ''premium_estimate'') in
              if \<not> has sl ''vehicle_age'' \<and> \<not> has sl ''vehicle_year'' then
                Inr (U ''Sure '' @ [EmDash] @ U '' I can estimate pricing. What'' @ [RQuote] @
                     U ''s the vehicle year (e.g., 2010)?'' @ human,
                     state\<lparr>slots := sl\<rparr>)
              else
                Inr (U ''Sure '' @ [EmDash] @ U '' I can estimate pricing. '' @
                     ask_one_missing (missing_premium_slots sl) sl @ human,
                     state\<lparr>slots := sl\<rparr>))
           else if any_in [''plans'', ''plan'', ''options'', ''offer'', ''coverage levels'',
                           ''coverage level'', ''levels you offer''] t then
             Inr (U ''We offer 3 coverage levels: Basic, Standard, and Premium.'' @ website @
                  U '' Want the differences between them?'' @ human,
                  state\<lparr>slots := sl\<rparr>)
           else if any_in [''difference'', ''differences'', ''compare'', ''comparison'',
                           ''what are the differences'', ''what is their differences''] t then
             Inr (U coverage_difference_answer @ human, state\<lparr>slots := sl\<rparr>)
           else if any_in [''how many'', ''number of'', ''how many models'', ''how many plans'',
                           ''how many options''] t then
             Inr (U (''We offer 3 options (Basic, Standard, Premium). '' @
                     ''Do you want the cheapest or the most coverage?'') @ human,
                  state\<lparr>slots := sl\<rparr>)
           else if any_in [''what are you talking about'', ''huh'', ''doesn't make sense'',
                           ''irrelevant''] t then
             Inr (U ''Got it '' @ [EmDash] @
                  U '' are you asking about coverage levels, pricing, or claim reporting?'' @ human,
                  state\<lparr>slots := sl\<rparr>)
           else if docs = [] \<or> hd docs = [] then
             Inr (U HUMAN_FALLBACK, state\<lparr>slots := sl\<rparr>)
           else
             (let candidate = doc_candidate docs;
                  base = (if \<not> is_bad_sentence candidate then candidate
                          else U ''I can answer that, but I need one detail first.'');
                  follow =
                    (if sublist ''deductible'' t then
                       ''Which coverage level (basic, standard, premium)?''
                     else if sublist ''exclusion'' t \<or> sublist ''excluded'' t
                             \<or> sublist ''not covered'' t then
                       ''Which situation (theft, drunk driving, intentional damage, etc.)?''
                     else if sublist ''roadside'' t \<or> sublist ''replacement'' t then
                       ''Do you want roadside assistance and a replacement vehicle included?''
                     else
                       ''What specific part do you want to know (coverage, deductible, '' @
                       ''exclusions, or claims)?'')
              in Inr (base @ website @ U '' '' @ U follow @ human, state\<lparr>slots := sl\<rparr>)))))"

section \<open>dialogue.py: the turn\<close>

definition nl :: string where
  "nl = [CHR 0x0A]"

definition rx_age_is :: "char rx" where
  \<comment> \<open>\<open>\bage\s*(is)?\s*(\d{1,2})\b\<close>\<close>
  "rx_age_is = seqs [wb, lit ''age'', star is_space, Opt (Grp 1 (lit ''is'')), star is_space,
                     Grp 2 (Rep is_decimal 1 (Some 2) True), wb]"

definition rx_two_digits :: "char rx" where
  \<comment> \<open>\<open>\d{1,2}\<close>\<close>
  "rx_two_digits = Rep is_decimal 1 (Some 2) True"

definition rx_litres :: "char rx" where
  \<comment> \<open>\<open>\b(\d(?:\.\d)?)\s*(l|liter|litre)\b\<close>\<close>
  "rx_litres = seqs [wb, Grp 1 (Seq (Sym is_decimal) (Opt (Seq (ch CHR ''.'') (Sym is_decimal)))),
                     star is_space, Grp 2 (alts [lit ''l'', lit ''liter'', lit ''litre'']), wb]"

definition merge_entities :: "env \<Rightarrow> string \<Rightarrow> SessionState \<Rightarrow> (string \<rightharpoonup> val)" where
  \<comment> \<open>the entity merge of \<open>dialogue_manager\<close>, from \<open>extract_entities\<close> to the bare age\<close>
  "merge_entities E user_text state =
     (let t = strip (lower user_text);
          sl = slots state ++ extract_entities user_text;
          sl = (case sl ''city'' of
                  Some v \<Rightarrow> sl(''city'' \<mapsto> VStr (normalize_city (py_str E v)))
                | None \<Rightarrow> sl);
          sl = (case sl ''vehicle_year'' of
                  Some v \<Rightarrow> (case py_int v of
                               Inr y \<Rightarrow> if 1950 \<le> y \<and> y \<le> CURRENT_YEAR E
                                        then sl(''vehicle_age'' \<mapsto> VInt (CURRENT_YEAR E - y))
                                        else sl
                             | Inl e \<Rightarrow> sl)
                | None \<Rightarrow> sl)
      in if \<not> has sl ''vehicle_age'' then
           (case re_search rx_age_is t of
              Some m \<Rightarrow> sl(''vehicle_age'' \<mapsto> VInt (int_of_digits (group_str t m 2)))
            | None \<Rightarrow>
                if re_fullmatch rx_two_digits t \<noteq> None then
                  (let age = int_of_digits t
                   in if 0 < age \<and> age < 100 \<and> last_intent state = Some (VStr ''premium_estimate'')
                      then sl(''vehicle_age'' \<mapsto> VInt age) else sl)
                else sl)
         else sl)"

definition resolve_intent ::
  "string \<Rightarrow> val option \<Rightarrow> (string \<rightharpoonup> val) \<Rightarrow> (string \<rightharpoonup> val) \<times> IntentResult" where
  \<comment> \<open>from \<open>detect_intent\<close> to the quote stickiness; the second argument is
      \<open>state.last_intent\<close>, the third the slots after the entity merge\<close>
  "resolve_intent user_text prev sl0 =
     (let t = strip (lower user_text);
          ir = detect_intent user_text prev;
          forced = sl0 ''force_intent'';
          sl = pop sl0 ''force_intent'';
          ir = (if truthy_opt forced then \<lparr>intent = the forced, confidence = 99 / 100\<rparr> else ir);
          (sl, ir) =
            (if truthy_opt (sl ''in_claim_intake'') then
               (if contains_any t CANCEL_WORDS
                then (pop (sl(''in_claim_intake'' \<mapsto> VBool False)) ''claim_expected'',
                      \<lparr>intent = VStr ''doc_qa'', confidence = 6 / 10\<rparr>)
                else (sl, \<lparr>intent = VStr ''report_claim'', confidence = 95 / 100\<rparr>))
             else (sl, ir));
          shopping_signals = [''cheapest'', ''lowest'', ''option'', ''basic coverage'', ''liability'',
                              ''minimum coverage''];
          ir = (if intent ir = VStr ''doc_qa'' \<and> any_in shopping_signals t
                then \<lparr>intent = VStr ''premium_estimate'', confidence = max (confidence ir) (8 / 10)\<rparr>
                else ir);
          ir = (if intent ir = VStr ''report_claim'' \<and> looks_like_claim_info_only t
                then \<lparr>intent = VStr ''doc_qa'', confidence = 85 / 100\<rparr>
                else ir);
          ir = (if intent ir = VStr ''doc_qa''
                   \<and> t \<in> set [''yes'', ''yes please'', ''ok'', ''okay'', ''sure'', ''da'', ''ya'']
                   \<and> prev = Some (VStr ''premium_estimate'')
                then (if missing_premium_slots sl = []
                      then \<lparr>intent = VStr ''compare_coverage'', confidence = 9 / 10\<rparr>
                      else \<lparr>intent = VStr ''premium_estimate'', confidence = 9 / 10\<rparr>)
                else ir);
          ir = (if prev = Some (VStr ''premium_estimate'') \<and> intent ir = VStr ''doc_qa''
                then \<lparr>intent = VStr ''premium_estimate'', confidence = max (confidence ir) (75 / 100)\<rparr>
                else ir)
      in (sl, ir))"

definition claim_flow ::
  "env \<Rightarrow> string \<Rightarrow> SessionState \<Rightarrow> py_error + TurnResult \<times> SessionState" where
  \<comment> \<open>the branch \<open>if intent_res.intent == "report_claim"\<close>\<close>
  "claim_flow E user_text state =
     (let sl = (slots state)(''in_claim_intake'' \<mapsto> VBool True);
          sl = claim_update_from_text E user_text sl
      in case claim_apply_expected_answer E user_text sl of
           Inl e \<Rightarrow> Inl e
         | Inr sl \<Rightarrow>
            (case claim_missing_slots sl of
               next_key # _ \<Rightarrow>
                 Inr (\<lparr>response_text = U (ask_claim_question next_key), end_call = False\<rparr>,
                      state\<lparr>slots := sl(''claim_expected'' \<mapsto> VStr next_key)\<rparr>)
             | [] \<Rightarrow>
                 (let (claim_no, state) = generate_claim_number E (state\<lparr>slots := sl\<rparr>);
                      sl = (slots state)(''claim_number'' \<mapsto> VStr claim_no);
                      sl = sl(''in_claim_intake'' \<mapsto> VBool False);
                      sl = pop sl ''claim_expected'';
                      area = sl ''accident_area'';
                      city = sl ''accident_city'';
                      loc = (if truthy_opt area \<and> truthy_opt city
                             then py_str E (the area) @ '', '' @ py_str E (the city)
                             else if truthy_opt city then py_str E (the city)
                             else ''the provided location'');
                      date = (case sl ''accident_date'' of
                                None \<Rightarrow> ''unknown date'' | Some v \<Rightarrow> py_str E v)
                  in Inr (\<lparr>response_text =
                             U ''Thanks '' @ [EmDash] @ U '' I'' @ [RQuote] @
                             U (''ve recorded your claim details.'' @ nl @
                                ''Next steps:'' @ nl @
                                ''1) If anyone is injured or there is danger, contact emergency services.''
                                @ nl @
                                ''2) Take photos of the scene, vehicle damage, plates, and road signs.''
                                @ nl @
                                ''3) Collect third-party and witness contacts if available.'' @ nl @
                                ''4) Keep receipts for towing/urgent costs.'' @ nl @ nl @
                                ''Summary: Accident in '' @ loc @ '' on '' @ date @ ''. '' @
                                ''Injuries: '' @
                                (if truthy_opt (sl ''injuries'') then ''yes'' else ''no'') @ ''.'' @ nl @
                                ''Your claim number is '' @ claim_no @ ''.''),
                           end_call = False\<rparr>,
                          state\<lparr>slots := sl\<rparr>))))"

definition premium_flow ::
  "env \<Rightarrow> string \<Rightarrow> SessionState \<Rightarrow> py_error + TurnResult \<times> SessionState" where
  \<comment> \<open>the branch \<open>if intent_res.intent == "premium_estimate"\<close>\<close>
  "premium_flow E user_text state =
     (let t = strip (lower user_text);
          sl = slots state;
          sl = (if \<not> has sl ''coverage_level'' \<and> sublist ''cheapest'' t
                then sl(''coverage_level'' \<mapsto> VStr ''basic'') else sl);
          (sl, hp_note) =
            (if \<not> has sl ''horsepower'' \<and> has sl ''engine_size_l'' then
               (case py_float E (the (sl ''engine_size_l'')) of
                  Inr x \<Rightarrow> (case estimate_hp_from_engine_size x of (hp_est, note) \<Rightarrow>
                             (sl(''horsepower'' \<mapsto> VInt hp_est),
                              ''(Using ~'' @ str_int hp_est @ '' HP '' @ note @ ''.) ''))
                | Inl e \<Rightarrow> (sl, []))
             else (sl, []));
          missing = missing_premium_slots sl
      in if missing \<noteq> [] then
           Inr (\<lparr>response_text = U hp_note @ ask_one_missing missing sl, end_call = False\<rparr>,
                state\<lparr>slots := sl\<rparr>)
         else
           (let sl = (if \<not> has sl ''engine_size_l'' then
                        (case re_search rx_litres t of
                           Some m \<Rightarrow> sl(''engine_size_l'' \<mapsto> VFloat (dec_float (group_str t m 1)))
                         | None \<Rightarrow> sl)
                      else sl)
            in case py_int (the (sl ''vehicle_age'')) of
                 Inl e \<Rightarrow> Inl e
               | Inr age \<Rightarrow>
              (case py_int (the (sl ''horsepower'')) of
                 Inl e \<Rightarrow> Inl e
               | Inr hp \<Rightarrow>
              (case calculate_premium (fl E) age hp (py_str E (the (sl ''city'')))
                      (lower (py_str E (the (sl ''coverage_level'')))) of
                 Inl e \<Rightarrow> Inl e
               | Inr res \<Rightarrow>
                 Inr (\<lparr>response_text =
                         U (''Based on a '' @ py_str E (the (sl ''vehicle_age'')) @
                            ''-year-old vehicle with '' @ py_str E (the (sl ''horsepower'')) @
                            '' HP in '' @ py_str E (the (sl ''city'')) @ '' with '' @
                            py_str E (the (sl ''coverage_level'')) @
                            '' coverage, your estimate is about '') @ [Euro] @
                         U (repr_float E (monthly_eur res) @
                            '' per month. Want to compare basic vs standard vs premium pricing?''),
                       end_call = False\<rparr>,
                      state\<lparr>slots := sl\<rparr>)))))"

fun compare_levels ::
  "(rat \<Rightarrow> rat) \<Rightarrow> int \<Rightarrow> int \<Rightarrow> string \<Rightarrow> string list \<Rightarrow> py_error + (string \<times> rat) list" where
  \<comment> \<open>the loop \<open>for level in [...]\<close>: the dictionary \<open>results\<close>\<close>
  "compare_levels f age hp city [] = Inr []"
| "compare_levels f age hp city (level # levels) =
     (case calculate_premium f age hp city level of
        Inl e \<Rightarrow> Inl e
      | Inr res \<Rightarrow> (case compare_levels f age hp city levels of
                      Inl e \<Rightarrow> Inl e
                    | Inr results \<Rightarrow> Inr ((level, monthly_eur res) # results)))"

definition compare_flow ::
  "env \<Rightarrow> SessionState \<Rightarrow> py_error + TurnResult \<times> SessionState" where
  \<comment> \<open>the branch \<open>if intent_res.intent == "compare_coverage"\<close>\<close>
  "compare_flow E state =
     (let sl = slots state
      in if missing_premium_slots sl \<noteq> [] then
           Inr (\<lparr>response_text = U coverage_difference_answer, end_call = False\<rparr>, state)
         else
           (case py_int (the (sl ''vehicle_age'')) of
              Inl e \<Rightarrow> Inl e
            | Inr age \<Rightarrow>
           (case py_int (the (sl ''horsepower'')) of
              Inl e \<Rightarrow> Inl e
            | Inr hp \<Rightarrow>
           (case compare_levels (fl E) age hp (py_str E (the (sl ''city'')))
                   [''basic'', ''standard'', ''premium''] of
              Inl e \<Rightarrow> Inl e
            | Inr results \<Rightarrow>
                Inr (\<lparr>response_text =
                        U ''Here'' @ [RQuote] @ U (''s a quick comparison:'' @ nl @
                           ''- Basic (liability only): '') @ [Euro] @
                        U (repr_float E (the (map_of results ''basic'')) @ '' per month'' @ nl @
                           ''- Standard: '') @ [Euro] @
                        U (repr_float E (the (map_of results ''standard'')) @ '' per month'' @ nl @
                           ''- Premium (most coverage): '') @ [Euro] @
                        U (repr_float E (the (map_of results ''premium'')) @ '' per month'' @ nl @ nl @
                           ''Which one do you prefer?''),
                      end_call = False\<rparr>,
                     state)))))"

definition qa_flow ::
  "env \<Rightarrow> string \<Rightarrow> SessionState \<Rightarrow> py_error + TurnResult \<times> SessionState" where
  \<comment> \<open>the end of \<open>dialogue_manager\<close>: retrieval and the Q&A responder\<close>
  "qa_flow E user_text state =
     (let t = strip (lower user_text);
          rag_query =
            (if any_in [''plans'', ''options'', ''coverage'', ''levels''] t then
               ''auto insurance coverage levels basic standard premium differences''
             else if sublist ''claim'' t then
               ''auto claim process steps required information evidence timeline''
             else if any_in [''deductible'', ''exclusion'', ''excluded'', ''not covered''] t then
               user_text
             else user_text)
      in case retrieve E rag_query 3 of
           Inl e \<Rightarrow> Inl e
         | Inr docs \<Rightarrow>
             (case qa_answer_or_followup user_text docs state of
                Inl e \<Rightarrow> Inl e
              | Inr (text, state) \<Rightarrow> Inr (\<lparr>response_text = text, end_call = False\<rparr>, state)))"

definition dialogue_manager ::
  "env \<Rightarrow> string \<Rightarrow> SessionState \<Rightarrow> py_error + TurnResult \<times> SessionState" where
  "dialogue_manager E user_text state0 =
     (let state = state0\<lparr>turns := turns state0 + 1\<rparr>;
          t = strip (lower user_text)
      in if contains_any t EXIT_WORDS then
           Inr (\<lparr>response_text = U ''Okay '' @ [EmDash] @ U '' ending the call. Goodbye!'',
                 end_call = True\<rparr>,
                state\<lparr>slots := pop ((slots state)(''in_claim_intake'' \<mapsto> VBool False))
                                   ''claim_expected''\<rparr>)
         else
           (let (sl, ir) = resolve_intent user_text (last_intent state)
                             (merge_entities E user_text state);
                sl = (if intent ir \<noteq> VStr ''doc_qa'' then sl(''qa_turns'' \<mapsto> VInt 0) else sl);
                state = state\<lparr>slots := sl, last_intent := Some (intent ir)\<rparr>
            in if intent ir = VStr ''handoff_human''
                  \<or> contains_any t [''human'', ''human agent'', ''call me back'', ''call back''] then
                 Inr (\<lparr>response_text =
                         U ''Okay '' @ [EmDash] @ U '' I'' @ [RQuote] @
                         U ''m transferring you to a human agent now. (Prototype: transfer simulated.)'',
                       end_call = True\<rparr>,
                      state)
               else if intent ir = VStr ''report_claim'' then claim_flow E user_text state
               else if intent ir = VStr ''premium_estimate'' then premium_flow E user_text state
               else if last_intent state = Some (VStr ''premium_estimate'')
                       \<and> \<not> has (slots state) ''coverage_level''
                       \<and> any_in [''difference'', ''compare'', ''comparison'',
                                  ''what is the difference''] t then
                 Inr (\<lparr>response_text = U coverage_difference_answer, end_call = False\<rparr>, state)
               else if (case last_intent state of Some (VDict x) \<Rightarrow> True | _ \<Rightarrow> False) then
                 Inl TypeError
               else if last_intent state \<in> set [Some (VStr ''premium_estimate''),
                                                 Some (VStr ''compare_coverage'')]
                       \<and> intent ir = VStr ''doc_qa'' then
                 Inr (\<lparr>response_text =
                         U (''Do you want to pick a coverage level (basic/standard/premium), '' @
                            ''or get a new quote with different details?''),
                       end_call = False\<rparr>,
                      state)
               else if intent ir = VStr ''compare_coverage'' then compare_flow E state
               else qa_flow E user_text state))"

section \<open>Observations and the rules as the specification words them\<close>

definition turn_result :: "py_error + TurnResult \<times> SessionState \<Rightarrow> TurnResult option" where
  "turn_result r = (case r of Inr (res, st) \<Rightarrow> Some res | Inl e \<Rightarrow> None)"

definition turn_state :: "py_error + TurnResult \<times> SessionState \<Rightarrow> SessionState option" where
  "turn_state r = (case r of Inr (res, st) \<Rightarrow> Some st | Inl e \<Rightarrow> None)"

definition INTENTS :: "string list" where
  \<comment> \<open>the type \<open>Intent\<close> of nlu.py\<close>
  "INTENTS = [''doc_qa'', ''report_claim'', ''premium_estimate'', ''clarification'',
              ''handoff_human'', ''compare_coverage'']"

definition intent_rules :: "val option \<Rightarrow> string \<Rightarrow> (bool \<times> string \<times> rat) list" where
  \<comment> \<open>the rules of the intent resolver in the order of the specification:
      whether the rule applies, its intent, its confidence\<close>
  "intent_rules prev t =
     [(prev = Some (VStr ''premium_estimate'') \<and> any_in kw_premium_estimate t,
         ''premium_estimate'', 85 / 100),
      (any_in kw_compare_coverage t, ''compare_coverage'', 9 / 10),
      (any_in kw_premium_estimate t, ''premium_estimate'', 8 / 10),
      (any_in kw_report_claim t, ''report_claim'', 8 / 10),
      (any_in kw_handoff_human t, ''handoff_human'', 7 / 10)]"

definition spec_detect_intent :: "string \<Rightarrow> val option \<Rightarrow> IntentResult" where
  \<comment> \<open>first match wins on the lower-cased trimmed text; the default is \<open>doc_qa\<close>\<close>
  "spec_detect_intent user_text prev =
     (case List.find fst (intent_rules prev (lower (strip user_text))) of
        Some (applies, name, conf) \<Rightarrow> \<lparr>intent = VStr name, confidence = conf\<rparr>
      | None \<Rightarrow> \<lparr>intent = VStr ''doc_qa'', confidence = 6 / 10\<rparr>)"

definition quote_base :: "(rat \<Rightarrow> rat) \<Rightarrow> int \<Rightarrow> int \<Rightarrow> string \<Rightarrow> rat" where
  \<comment> \<open>the product \<open>base * age_factor * power_factor * city_factor\<close> of
      \<open>calculate_premium\<close>, the part of \<open>monthly\<close> that does not depend on the level\<close>
  "quote_base f vehicle_age horsepower city =
     f (f (f (f 25 * f (f 1 + f (f (of_int (max 0 (vehicle_age - 3))) * f (5 / 100))))
           * f (f 1 + f (f (of_int (max 0 (horsepower - 80))) * f (1 / 100))))
        * (case map_of city_factor_map (lower (strip city)) of
             None \<Rightarrow> f (104 / 100) | Some x \<Rightarrow> f x))"

definition slot_after :: "py_error + TurnResult \<times> SessionState \<Rightarrow> string \<Rightarrow> val option" where
  \<comment> \<open>a slot of the session after the turn\<close>
  "slot_after r k = (case r of Inr (res, st) \<Rightarrow> slots st k | Inl e \<Rightarrow> None)"

definition answer_slot :: "py_error + (string \<rightharpoonup> val) \<Rightarrow> string \<Rightarrow> val option" where
  \<comment> \<open>a slot after \<open>_claim_apply_expected_answer\<close>\<close>
  "answer_slot r k = (case r of Inr sl \<Rightarrow> sl k | Inl e \<Rightarrow> None)"

section \<open>app_common.py: the front end's exit test\<close>

definition EXIT_PHRASES :: "string list" where
  "EXIT_PHRASES = [''hang up'', ''goodbye'', ''bye'', ''exit'', ''quit'', ''stop'', ''end'',
                   ''terminate'', ''close'', ''disconnect'']"

definition is_exit_phrase :: "string \<Rightarrow> bool" where
  \<comment> \<open>with the default \<open>phrases=EXIT_PHRASES\<close>: an exact match\<close>
  "is_exit_phrase user_text = (lower (strip user_text) \<in> set (map lower EXIT_PHRASES))"

definition row_ok :: "nat \<Rightarrow> nat \<Rightarrow> (nat \<times> nat) list \<times> nat \<times> nat \<times> nat \<Rightarrow> bool" where
  \<comment> \<open>the invariant of the scan of \<open>find_longest_match\<close> before row \<open>i0\<close>: the best block lies
      in \<open>a[alo:i0]\<close>, and no match ending in the last row is longer than the rows seen\<close>
  "row_ok alo i0 st = (case st of (j2len, bi, bj, bs) \<Rightarrow>
     alo \<le> bi \<and> bi + bs \<le> i0 \<and> (\<forall>(j, v) \<in> set j2len. v \<le> i0 - alo))"

section \<open>An environment and states for the examples\<close>

definition env0 :: env where
  "env0 = \<lparr>now = (2026, 11, 4), CURRENT_YEAR = 2026,
            retrieve = (\<lambda>q k. Inr []),
            fl = (\<lambda>x. x),
            float_of_str = (\<lambda>s. None),
            repr_float = (\<lambda>r. ''0.0''),
            repr_dict = (\<lambda>d. ''{}'')\<rparr>"

definition fresh :: SessionState where
  \<comment> \<open>\<open>SessionState()\<close>\<close>
  "fresh = \<lparr>slots = Map.empty, last_intent = None, turns = 0\<rparr>"

definition in_intake :: SessionState where
  \<comment> \<open>a claim intake waiting for the answer about injuries\<close>
  "in_intake = \<lparr>slots = [''in_claim_intake'' \<mapsto> VBool True, ''insurance_number'' \<mapsto> VStr ''123456'',
                          ''claim_expected'' \<mapsto> VStr ''injuries''],
                last_intent = Some (VStr ''report_claim''), turns = 2\<rparr>"

definition ask_policy :: SessionState where
  \<comment> \<open>a claim intake waiting for the policy number\<close>
  "ask_policy = \<lparr>slots = [''in_claim_intake'' \<mapsto> VBool True,
                           ''claim_expected'' \<mapsto> VStr ''insurance_number''],
                 last_intent = Some (VStr ''report_claim''), turns = 1\<rparr>"

section \<open>Text lemmas\<close>

lemma code_char_of: "code (char_of n) = n mod 256"
  by (simp add: code_def)

lemma code_lt: "code c < 256"
  by (simp add: code_def)

lemma lower_char_idem: "lower_char (lower_char c) = lower_char c"
  using code_lt [of c] by (auto simp: lower_char_def Let_def code_char_of)

lemma lower_idem: "lower (lower s) = lower s"
  by (simp add: lower_def lower_char_idem)

lemma is_space_lower_char: "is_space (lower_char c) = is_space c"
  using code_lt [of c] by (auto simp: lower_char_def is_space_def Let_def code_char_of)

lemma lstrip_lower: "lstrip (lower s) = lower (lstrip s)"
  by (simp add: lstrip_def lower_def dropWhile_map comp_def is_space_lower_char)

lemma rstrip_lower: "rstrip (lower s) = lower (rstrip s)"
  by (simp add: rstrip_def lower_def dropWhile_map comp_def is_space_lower_char rev_map)

lemma strip_lower: "strip (lower s) = lower (strip s)"
  by (simp add: strip_def lstrip_lower rstrip_lower)

lemma any_in_iff: "any_in ps t \<longleftrightarrow> (\<exists>p \<in> set ps. sublist p t)"
  by (simp add: any_in_def list_ex_iff)

section \<open>The exit check\<close>

lemma dm_exit:
  assumes "w \<in> set EXIT_WORDS" and "sublist w (strip (lower user_text))"
  shows "dialogue_manager E user_text state =
           Inr (\<lparr>response_text = U ''Okay '' @ [EmDash] @ U '' ending the call. Goodbye!'',
                 end_call = True\<rparr>,
                state\<lparr>turns := turns state + 1,
                      slots := ((slots state)(''in_claim_intake'' \<mapsto> VBool False))
                                 (''claim_expected'' := None)\<rparr>)"
proof -
  have "contains_any (strip (lower user_text)) EXIT_WORDS"
    using assms by (auto simp: contains_any_def strip_lower lower_idem any_in_iff)
  then show ?thesis
    by (simp add: dialogue_manager_def Let_def pop_def)
qed

text \<open>
  The exit check on an utterance that is, or contains, one of the exit phrases: the turn
  ends the call in every session state, sets \<open>in_claim_intake\<close> to false and removes
  \<open>claim_expected\<close>.
\<close>

lemma exit_phrase_ends_call:
  assumes "w \<in> set EXIT_WORDS" and "sublist w (strip (lower user_text))"
  shows "\<exists>res st. dialogue_manager E user_text state = Inr (res, st) \<and> end_call res
           \<and> slots st ''in_claim_intake'' = Some (VBool False)
           \<and> slots st ''claim_expected'' = None"
  by (simp add: dm_exit [OF assms])

lemma exact_exit_phrase_ends_call:
  assumes "strip (lower user_text) \<in> set EXIT_WORDS"
  shows "\<exists>res st. dialogue_manager E user_text state = Inr (res, st) \<and> end_call res
           \<and> slots st ''in_claim_intake'' = Some (VBool False)
           \<and> slots st ''claim_expected'' = None"
  using assms by (rule exit_phrase_ends_call) simp

text \<open>
  C1.  The claim holds of exact matches (the lemma above) and fails of its last part:
  \<open>dialogue_manager\<close> tests containment, where the front end's \<open>is_exit_phrase\<close> tests
  equality with the same phrases.  The utterances \<open>friend\<close> and
  \<open>I was rear-ended at a light\<close> are no exit phrases (they only contain \<open>end\<close>), the front
  end lets them pass, and the turn ends the call; the second one, during a claim intake,
  holds \<open>rear-ended\<close>, a keyword of the accident description of
  \<open>_claim_update_from_text\<close>, which the turn never reaches.
\<close>

theorem exit_check_failing_input:
  "strip (lower ''friend'') \<notin> set EXIT_WORDS
   \<and> is_exit_phrase ''friend'' = False
   \<and> map_option end_call (turn_result (dialogue_manager env0 ''friend'' fresh)) = Some True
   \<and> strip (lower ''I was rear-ended at a light'') \<notin> set EXIT_WORDS
   \<and> is_exit_phrase ''I was rear-ended at a light'' = False
   \<and> map_option end_call
         (turn_result (dialogue_manager env0 ''I was rear-ended at a light'' in_intake))
       = Some True"
  by code_simp

text \<open>
  C10.  \<open>stop\<close> is an exit word and a cancellation word.  In every session state, so also
  during a claim intake, the turn \<open>stop\<close> is taken by the exit check: the call ends, and
  the state is the one the exit check leaves (the intake flags cleared, \<open>last_intent\<close>
  untouched), not the one of a cancelled intake that continues as \<open>doc_qa\<close>.
\<close>

theorem stop_is_exit_not_cancel:
  "''stop'' \<in> set EXIT_WORDS \<and> ''stop'' \<in> set CANCEL_WORDS \<and>
   (\<exists>res. dialogue_manager E ''stop'' state =
            Inr (res, state\<lparr>turns := turns state + 1,
                             slots := ((slots state)(''in_claim_intake'' \<mapsto> VBool False))
                                        (''claim_expected'' := None)\<rparr>)
          \<and> end_call res)"
proof -
  have h1: "''stop'' \<in> set EXIT_WORDS" by (simp add: EXIT_WORDS_def)
  have h2: "sublist ''stop'' (strip (lower ''stop''))" by code_simp
  show ?thesis
    by (simp add: dm_exit [OF h1 h2] h1 CANCEL_WORDS_def)
qed

theorem stop_is_exit_not_cancel_witness:
  "truthy_opt (slots in_intake ''in_claim_intake'') \<and>
   (\<exists>res. dialogue_manager env0 ''stop'' in_intake =
            Inr (res, in_intake\<lparr>turns := turns in_intake + 1,
                                slots := ((slots in_intake)(''in_claim_intake'' \<mapsto> VBool False))
                                           (''claim_expected'' := None)\<rparr>)
          \<and> end_call res)"
proof -
  have "truthy_opt (slots in_intake ''in_claim_intake'')" by code_simp
  then show ?thesis
    using stop_is_exit_not_cancel [of env0 in_intake] by simp
qed

section \<open>The intent resolver\<close>

text \<open>
  C5.  \<open>detect_intent\<close> is a function of the utterance and the previous intent alone, and
  it is the first-match-wins evaluation of the rules in the order of the specification
  on the lower-cased trimmed text; its confidence lies in [0, 1] and its intent is one
  of the fixed set.
\<close>

theorem detect_intent_rules:
  "detect_intent user_text prev = spec_detect_intent user_text prev \<and>
   0 \<le> confidence (detect_intent user_text prev) \<and>
   confidence (detect_intent user_text prev) \<le> 1 \<and>
   intent (detect_intent user_text prev) \<in> VStr ` set INTENTS"
  by (simp add: detect_intent_def spec_detect_intent_def intent_rules_def strip_lower
      INTENTS_def Let_def)

theorem detect_intent_rules_witness:
  "detect_intent ''How much is the premium?'' (Some (VStr ''premium_estimate''))
     = \<lparr>intent = VStr ''premium_estimate'', confidence = 85 / 100\<rparr> \<and>
   spec_detect_intent ''How much is the premium?'' (Some (VStr ''premium_estimate''))
     = \<lparr>intent = VStr ''premium_estimate'', confidence = 85 / 100\<rparr>"
proof -
  have "detect_intent ''How much is the premium?'' (Some (VStr ''premium_estimate''))
     = \<lparr>intent = VStr ''premium_estimate'', confidence = 85 / 100\<rparr>"
    by code_simp
  then show ?thesis
    using detect_intent_rules [of "''How much is the premium?''" "Some (VStr ''premium_estimate'')"]
    by simp
qed

section \<open>The coverage comparison\<close>

lemma round_half_even_mono:
  assumes "y \<le> z" shows "round_half_even y \<le> round_half_even z"
proof -
  have fl: "\<lfloor>y\<rfloor> \<le> \<lfloor>z\<rfloor>" using assms by (rule floor_mono)
  have ly: "round_half_even y \<le> \<lfloor>y\<rfloor> + 1" and lz: "\<lfloor>z\<rfloor> \<le> round_half_even z"
    by (auto simp: round_half_even_def Let_def)
  show ?thesis
  proof (cases "\<lfloor>y\<rfloor> = \<lfloor>z\<rfloor>")
    case True
    then have "y - of_int \<lfloor>y\<rfloor> \<le> z - of_int \<lfloor>z\<rfloor>" using assms by simp
    then show ?thesis using True by (auto simp: round_half_even_def Let_def)
  next
    case False
    then have "\<lfloor>y\<rfloor> + 1 \<le> \<lfloor>z\<rfloor>" using fl by simp
    then show ?thesis using ly lz by linarith
  qed
qed


lemma round2_mono:
  assumes "mono f" and "y \<le> z" shows "round2 f y \<le> round2 f z"
proof -
  have "round_half_even (y * 100) \<le> round_half_even (z * 100)"
    using assms(2) by (intro round_half_even_mono) simp
  then have "(of_int (round_half_even (y * 100)) :: rat) / 100 \<le> of_int (round_half_even (z * 100)) / 100"
    by (simp add: divide_right_mono)
  then show ?thesis
    unfolding round2_def using assms(1) by (simp add: monoD)
qed

lemma float_int_limit_pos: "0 < float_int_limit"
  by (simp add: float_int_limit_def)

lemma float_of_int_max:
  assumes "x < float_int_limit"
  shows "float_of_int f (max 0 x) = Inr (f (of_int (max 0 x)))"
proof -
  have "\<not> float_int_limit \<le> \<bar>max 0 x\<bar>" using assms float_int_limit_pos by linarith
  then show ?thesis by (simp only: float_of_int_def if_False)
qed

lemma float_of_int_overflow:
  assumes "float_int_limit \<le> x"
  shows "float_of_int f (max 0 x) = Inl OverflowError"
proof -
  have "float_int_limit \<le> \<bar>max 0 x\<bar>" using assms by linarith
  then show ?thesis by (simp only: float_of_int_def if_True)
qed

lemma calculate_premium_monthly:
  assumes "map_of coverage_factor_map level = Some cf"
    and "age - 3 < float_int_limit" and "hp - 80 < float_int_limit"
  shows "\<exists>res. calculate_premium f age hp city level = Inr res
           \<and> monthly_eur res = round2 f (f (quote_base f age hp city * f cf))"
  unfolding calculate_premium_def Let_def quote_base_def assms(1)
    float_of_int_max [OF assms(2)] float_of_int_max [OF assms(3)]
  by simp

lemma calculate_premium_overflow:
  assumes "float_int_limit \<le> age - 3 \<or> float_int_limit \<le> hp - 80"
  shows "calculate_premium f age hp city level = Inl OverflowError"
proof (cases "float_int_limit \<le> age - 3")
  case True
  then show ?thesis
    by (simp add: calculate_premium_def Let_def float_of_int_overflow)
next
  case False
  then have a: "age - 3 < float_int_limit" and h: "float_int_limit \<le> hp - 80"
    using assms by auto
  show ?thesis
    by (simp add: calculate_premium_def Let_def float_of_int_max [OF a] float_of_int_overflow [OF h])
qed

lemma nonneg_f:
  assumes "mono f" and "f 0 = 0" and "0 \<le> (x::rat)" shows "0 \<le> f x"
proof -
  have "f 0 \<le> f x" using assms(1,3) by (rule monoD)
  then show ?thesis using assms(2) by simp
qed


lemma city_factor_nonneg:
  assumes "mono f" and "f 0 = 0"
  shows "0 \<le> (case map_of city_factor_map c of None \<Rightarrow> f (104 / 100) | Some x \<Rightarrow> f x)"
proof (cases "map_of city_factor_map c")
  case None
  then show ?thesis using nonneg_f [OF assms, of "104 / 100"] by simp
next
  case (Some x)
  then have "(c, x) \<in> set city_factor_map" by (rule map_of_SomeD)
  then have "0 \<le> x" by (auto simp: city_factor_map_def)
  then show ?thesis using Some nonneg_f [OF assms, of x] by simp
qed

lemma quote_base_nonneg:
  assumes "mono f" and "f 0 = 0"
  shows "0 \<le> quote_base f age hp city"
proof -
  note nn = nonneg_f [OF assms]
  have a: "0 \<le> f (f 1 + f (f (of_int (max 0 (age - 3))) * f (5 / 100)))"
    by (intro nn add_nonneg_nonneg mult_nonneg_nonneg) simp_all
  have p: "0 \<le> f (f 1 + f (f (of_int (max 0 (hp - 80))) * f (1 / 100)))"
    by (intro nn add_nonneg_nonneg mult_nonneg_nonneg) simp_all
  have b: "0 \<le> f 25" by (intro nn) simp
  have c: "0 \<le> (case map_of city_factor_map (lower (strip city)) of
             None \<Rightarrow> f (104 / 100) | Some x \<Rightarrow> f x)"
    by (rule city_factor_nonneg [OF assms])
  show ?thesis
    unfolding quote_base_def
    by (intro nn mult_nonneg_nonneg a p b c)
qed


lemma cf_basic: "map_of coverage_factor_map ''basic'' = Some (80 / 100)"
  by (simp add: coverage_factor_map_def)

lemma cf_standard: "map_of coverage_factor_map ''standard'' = Some (90 / 100)"
  by (simp add: coverage_factor_map_def)

lemma cf_premium: "map_of coverage_factor_map ''premium'' = Some 1"
  by (simp add: coverage_factor_map_def)

text \<open>
  C4 (as amended).  The float rounding \<open>f\<close> is any monotone function that keeps 0, as
  rounding to the nearest float does.  For every age, horsepower and city with
  \<open>age - 3\<close> and \<open>horsepower - 80\<close> below the least integer that Python does not convert to
  a float, the loop of the coverage comparison yields exactly three prices, for basic,
  standard and premium in this order, each the \<open>monthly_eur\<close> of \<open>calculate_premium\<close> at
  that one (age, horsepower, city) tuple, and basic \<open>\<le>\<close> standard \<open>\<le>\<close> premium.  From that
  integer on, the conversion raises OverflowError and the comparison yields no price.
\<close>

theorem coverage_comparison_ordered:
  assumes "mono f" and "f 0 = 0"
  shows "(age - 3 < float_int_limit \<and> hp - 80 < float_int_limit \<longrightarrow>
          (\<exists>b s p rb rs rp.
             compare_levels f age hp city [''basic'', ''standard'', ''premium'']
               = Inr [(''basic'', b), (''standard'', s), (''premium'', p)]
           \<and> calculate_premium f age hp city ''basic'' = Inr rb \<and> b = monthly_eur rb
           \<and> calculate_premium f age hp city ''standard'' = Inr rs \<and> s = monthly_eur rs
           \<and> calculate_premium f age hp city ''premium'' = Inr rp \<and> p = monthly_eur rp
           \<and> b \<le> s \<and> s \<le> p))
       \<and> (float_int_limit \<le> age - 3 \<or> float_int_limit \<le> hp - 80 \<longrightarrow>
            compare_levels f age hp city [''basic'', ''standard'', ''premium'']
              = Inl OverflowError)"
proof (intro conjI impI)
  assume "float_int_limit \<le> age - 3 \<or> float_int_limit \<le> hp - 80"
  then show "compare_levels f age hp city [''basic'', ''standard'', ''premium'']
              = Inl OverflowError"
    by (simp add: calculate_premium_overflow)
next
  assume "age - 3 < float_int_limit \<and> hp - 80 < float_int_limit"
  then have ra: "age - 3 < float_int_limit" and rh: "hp - 80 < float_int_limit" by simp_all
  let ?x = "quote_base f age hp city"
  from calculate_premium_monthly [OF cf_basic ra rh, of f city]
  obtain rb where rb: "calculate_premium f age hp city ''basic'' = Inr rb"
      and mb: "monthly_eur rb = round2 f (f (?x * f (80 / 100)))"
    by blast
  from calculate_premium_monthly [OF cf_standard ra rh, of f city]
  obtain rs where rs: "calculate_premium f age hp city ''standard'' = Inr rs"
      and ms: "monthly_eur rs = round2 f (f (?x * f (90 / 100)))"
    by blast
  from calculate_premium_monthly [OF cf_premium ra rh, of f city]
  obtain rp where rp: "calculate_premium f age hp city ''premium'' = Inr rp"
      and mp: "monthly_eur rp = round2 f (f (?x * f 1))"
    by blast
  have x: "0 \<le> ?x" by (rule quote_base_nonneg [OF assms])
  have f1: "f (80 / 100) \<le> f (90 / 100)" by (rule monoD [OF assms(1)]) simp
  have f2: "f (90 / 100) \<le> f 1" by (rule monoD [OF assms(1)]) simp
  have g1: "f (?x * f (80 / 100)) \<le> f (?x * f (90 / 100))"
    by (rule monoD [OF assms(1)]) (rule mult_left_mono [OF f1 x])
  have g2: "f (?x * f (90 / 100)) \<le> f (?x * f 1)"
    by (rule monoD [OF assms(1)]) (rule mult_left_mono [OF f2 x])
  have o1: "monthly_eur rb \<le> monthly_eur rs"
    unfolding mb ms by (rule round2_mono [OF assms(1) g1])
  have o2: "monthly_eur rs \<le> monthly_eur rp"
    unfolding ms mp by (rule round2_mono [OF assms(1) g2])
  have c: "compare_levels f age hp city [''basic'', ''standard'', ''premium'']
             = Inr [(''basic'', monthly_eur rb), (''standard'', monthly_eur rs),
                    (''premium'', monthly_eur rp)]"
    by (simp add: rb rs rp)
  show "\<exists>b s p rb rs rp.
             compare_levels f age hp city [''basic'', ''standard'', ''premium'']
               = Inr [(''basic'', b), (''standard'', s), (''premium'', p)]
           \<and> calculate_premium f age hp city ''basic'' = Inr rb \<and> b = monthly_eur rb
           \<and> calculate_premium f age hp city ''standard'' = Inr rs \<and> s = monthly_eur rs
           \<and> calculate_premium f age hp city ''premium'' = Inr rp \<and> p = monthly_eur rp
           \<and> b \<le> s \<and> s \<le> p"
    using c rb rs rp o1 o2 by blast
qed

theorem coverage_comparison_ordered_witness:
  "mono (\<lambda>x::rat. x) \<and> (\<lambda>x::rat. x) 0 = 0
   \<and> (10::int) - 3 < float_int_limit \<and> (120::int) - 80 < float_int_limit \<and>
   (\<exists>b s p rb rs rp.
           compare_levels (\<lambda>x. x) 10 120 ''Ljubljana'' [''basic'', ''standard'', ''premium'']
             = Inr [(''basic'', b), (''standard'', s), (''premium'', p)]
         \<and> calculate_premium (\<lambda>x. x) 10 120 ''Ljubljana'' ''basic'' = Inr rb \<and> b = monthly_eur rb
         \<and> calculate_premium (\<lambda>x. x) 10 120 ''Ljubljana'' ''standard'' = Inr rs \<and> s = monthly_eur rs
         \<and> calculate_premium (\<lambda>x. x) 10 120 ''Ljubljana'' ''premium'' = Inr rp \<and> p = monthly_eur rp
         \<and> b \<le> s \<and> s \<le> p)"
proof -
  have m: "mono (\<lambda>x::rat. x)" by (rule monoI)
  have z: "(\<lambda>x::rat. x) 0 = 0" by (rule refl)
  have a: "(10::int) - 3 < float_int_limit" by (simp add: float_int_limit_def)
  have h: "(120::int) - 80 < float_int_limit" by (simp add: float_int_limit_def)
  from coverage_comparison_ordered [OF m z, of 10 120 "''Ljubljana''"] a h
  have "\<exists>b s p rb rs rp.
           compare_levels (\<lambda>x. x) 10 120 ''Ljubljana'' [''basic'', ''standard'', ''premium'']
             = Inr [(''basic'', b), (''standard'', s), (''premium'', p)]
         \<and> calculate_premium (\<lambda>x. x) 10 120 ''Ljubljana'' ''basic'' = Inr rb \<and> b = monthly_eur rb
         \<and> calculate_premium (\<lambda>x. x) 10 120 ''Ljubljana'' ''standard'' = Inr rs \<and> s = monthly_eur rs
         \<and> calculate_premium (\<lambda>x. x) 10 120 ''Ljubljana'' ''premium'' = Inr rp \<and> p = monthly_eur rp
         \<and> b \<le> s \<and> s \<le> p"
    by blast
  with m z a h show ?thesis by (intro conjI)
qed

text \<open>
  C4 as stated fails: at age 0 and a horsepower of \<open>2 ^ 1024 + 80\<close>, both non-negative,
  the conversion of \<open>horsepower - 80\<close> to a float raises OverflowError, and the comparison
  yields no price.
\<close>

theorem coverage_comparison_counterexample:
  "(0::int) \<le> 0 \<and> (0::int) \<le> 2 ^ 1024 + 80 \<and>
   compare_levels (\<lambda>x. x) 0 (2 ^ 1024 + 80) ''Ljubljana'' [''basic'', ''standard'', ''premium'']
     = Inl OverflowError"
proof -
  have "float_int_limit \<le> (0::int) - 3 \<or> float_int_limit \<le> (2 ^ 1024 + 80) - 80"
    by (simp add: float_int_limit_def)
  then have "calculate_premium (\<lambda>x. x) 0 (2 ^ 1024 + 80) ''Ljubljana'' ''basic'' = Inl OverflowError"
    by (rule calculate_premium_overflow)
  then show ?thesis by simp
qed

section \<open>Spoken digits and the policy number\<close>

lemma digit_words_digits: "list_all (\<lambda>(k, d). list_all isdigit d) DIGIT_WORDS"
  by code_simp

lemma digit_word_isdigit:
  assumes "map_of DIGIT_WORDS w = Some d" shows "list_all isdigit d"
proof -
  have "(w, d) \<in> set DIGIT_WORDS" using assms by (rule map_of_SomeD)
  then show ?thesis using digit_words_digits by (auto simp: list_all_iff)
qed

lemma replicate_isdigit: "list_all isdigit d \<Longrightarrow> list_all isdigit (concat (replicate n d))"
  by (induction n) simp_all

lemma spoken_tokens_isdigit: "list_all isdigit (concat (spoken_tokens ts))"
proof (induction ts rule: spoken_tokens.induct)
  case 1
  then show ?case by simp
next
  case (2 tok)
  show ?case
  proof (cases "str_isdigit tok")
    case True
    then show ?thesis by (simp add: str_isdigit_def)
  next
    case False
    then show ?thesis
      by (cases "map_of DIGIT_WORDS tok") (simp_all add: digit_word_isdigit)
  qed
next
  case (3 tok nxt rest)
  show ?case
  proof (cases "str_isdigit tok")
    case True
    then show ?thesis using "3.IH" by (simp add: str_isdigit_def)
  next
    case nd: False
    show ?thesis
    proof (cases "if tok = ''double'' \<or> tok = ''triple'' then map_of DIGIT_WORDS nxt else None")
      case (Some d)
      then have "map_of DIGIT_WORDS nxt = Some d" by (simp split: if_splits)
      then have "list_all isdigit d" by (rule digit_word_isdigit)
      then show ?thesis using nd Some "3.IH" by (simp add: replicate_isdigit)
    next
      case None
      show ?thesis
      proof (cases "map_of DIGIT_WORDS tok")
        case N2: None
        then show ?thesis using nd None "3.IH" by simp
      next
        case S2: (Some d)
        then show ?thesis using nd None "3.IH" by (simp add: digit_word_isdigit)
      qed
    qed
  qed
qed

lemma raw_digits_isdigit: "list_all isdigit (raw_digits text)"
  by (simp add: raw_digits_def list_all_iff)

lemma spoken_digits_isdigit: "list_all isdigit (spoken_digits_to_string text)"
  by (simp add: spoken_digits_to_string_def spoken_def raw_digits_isdigit spoken_tokens_isdigit)

lemma extract_policy_number_eq:
  "extract_policy_number text =
     (if 6 \<le> length (spoken_digits_to_string text) then spoken_digits_to_string text else [])"
proof -
  have "filter isdigit (spoken_digits_to_string text) = spoken_digits_to_string text"
    using spoken_digits_isdigit [of "text"] by (simp add: list_all_iff)
  then show ?thesis by (simp add: extract_policy_number_def Let_def)
qed

lemma apply_policy_answer:
  assumes "sl ''claim_expected'' = Some (VStr ''insurance_number'')"
  shows "claim_apply_expected_answer E text sl =
           Inr (if extract_policy_number (strip text) \<noteq> []
                then (sl(''insurance_number'' \<mapsto> VStr (extract_policy_number (strip text))))
                       (''claim_expected'' := None)
                else (case re_search rx_policy (strip text) of
                        Some m \<Rightarrow> (sl(''insurance_number'' \<mapsto> VStr (group_str (strip text) m 1)))
                                    (''claim_expected'' := None)
                      | None \<Rightarrow> sl))"
  by (simp add: claim_apply_expected_answer_def assms truthy_def Let_def pop_def
      split: option.split)

text \<open>
  C7 (as amended).  The spoken-digit recovery returns the spoken-word reconstruction
  \<open>spoken\<close> (digit words, \<open>double\<close>/\<open>triple\<close>, the homophones \<open>for\<close> and \<open>ate\<close>) whenever it
  has at least as many digits as the raw digit characters, and the raw digit characters
  otherwise; the result consists of digits.  \<open>_extract_policy_number\<close> yields a policy number
  only if that digit string has length at least 6, and it is then the digit string.  When
  the policy number is the expected answer, the slot \<open>insurance_number\<close> receives that
  digit string if there is one, and otherwise the first token that matches
  \<open>\b([A-Za-z0-9][A-Za-z0-9\-]{4,})\b\<close>, whatever the number of its digits; without
  either, the slot is left as it was.
\<close>

theorem policy_number_recovery:
  "(length (raw_digits text) \<le> length (spoken text)
      \<longrightarrow> spoken_digits_to_string text = spoken text)
   \<and> (length (spoken text) < length (raw_digits text)
      \<longrightarrow> spoken_digits_to_string text = raw_digits text)
   \<and> list_all isdigit (spoken_digits_to_string text)
   \<and> (extract_policy_number text \<noteq> []
      \<longrightarrow> extract_policy_number text = spoken_digits_to_string text
          \<and> 6 \<le> length (spoken_digits_to_string text))
   \<and> (sl ''claim_expected'' = Some (VStr ''insurance_number'')
      \<longrightarrow> (\<exists>sl'. claim_apply_expected_answer E text sl = Inr sl'
             \<and> sl' ''insurance_number'' =
                 (if extract_policy_number (strip text) \<noteq> []
                  then Some (VStr (extract_policy_number (strip text)))
                  else (case re_search rx_policy (strip text) of
                          Some m \<Rightarrow> Some (VStr (group_str (strip text) m 1))
                        | None \<Rightarrow> sl ''insurance_number''))))"
proof (intro conjI impI)
  show "list_all isdigit (spoken_digits_to_string text)" by (rule spoken_digits_isdigit)
next
  assume "sl ''claim_expected'' = Some (VStr ''insurance_number'')"
  then show "\<exists>sl'. claim_apply_expected_answer E text sl = Inr sl'
             \<and> sl' ''insurance_number'' =
                 (if extract_policy_number (strip text) \<noteq> []
                  then Some (VStr (extract_policy_number (strip text)))
                  else (case re_search rx_policy (strip text) of
                          Some m \<Rightarrow> Some (VStr (group_str (strip text) m 1))
                        | None \<Rightarrow> sl ''insurance_number''))"
    by (simp add: apply_policy_answer split: option.split)
qed (simp_all add: spoken_digits_to_string_def extract_policy_number_eq split: if_splits)

theorem policy_number_recovery_witness:
  "spoken ''double five for ate 12'' = ''554812'' \<and> raw_digits ''double five for ate 12'' = ''12''
   \<and> spoken_digits_to_string ''double five for ate 12'' = ''554812''
   \<and> extract_policy_number ''double five for ate 12'' = ''554812''
   \<and> slots ask_policy ''claim_expected'' = Some (VStr ''insurance_number'')
   \<and> answer_slot (claim_apply_expected_answer env0 ''double five for ate 12'' (slots ask_policy))
        ''insurance_number'' = Some (VStr ''554812'')"
proof -
  have s: "spoken ''double five for ate 12'' = ''554812''" by code_simp
  have r: "raw_digits ''double five for ate 12'' = ''12''" by code_simp
  have t: "strip ''double five for ate 12'' = ''double five for ate 12''" by code_simp
  have e: "slots ask_policy ''claim_expected'' = Some (VStr ''insurance_number'')" by code_simp
  note w = policy_number_recovery [of "''double five for ate 12''" "slots ask_policy" env0]
  have d: "spoken_digits_to_string ''double five for ate 12'' = ''554812''"
    using w s r by simp
  have p: "extract_policy_number ''double five for ate 12'' = ''554812''"
    using d by (simp add: extract_policy_number_eq)
  show ?thesis
    using w s r d p e t by (auto simp: answer_slot_def)
qed

text \<open>
  C7 as stated fails: the answer \<open>AB-12345\<close> has five digits, and the turn stores it as
  the policy number.
\<close>

theorem policy_number_counterexample:
  "filter isdigit (spoken_digits_to_string (strip ''AB-12345'')) = ''12345''
   \<and> slots ask_policy ''claim_expected'' = Some (VStr ''insurance_number'')
   \<and> slot_after (dialogue_manager env0 ''AB-12345'' ask_policy) ''insurance_number''
       = Some (VStr ''AB-12345'')"
  by code_simp

section \<open>The matching blocks: the bound on the nesting suffices\<close>

text \<open>
  The longest block of a window lies inside the window, so the windows to its left and
  right are shorter: \<open>matches\<close> gives the same value for every bound above the length of
  the window, as \<open>ratio\<close> gives it.
\<close>

lemma j2len_get_le:
  assumes "\<forall>(j, v) \<in> set d. v \<le> n" shows "j2len_get d j \<le> n"
proof (cases "j = 0 \<or> map_of d (j - 1) = None")
  case True
  then show ?thesis by (auto simp: j2len_get_def)
next
  case False
  then obtain v where v: "map_of d (j - 1) = Some v" by auto
  then have "(j - 1, v) \<in> set d" by (rule map_of_SomeD)
  then have "v \<le> n" using assms by auto
  then show ?thesis using False v by (simp add: j2len_get_def)
qed

lemma flm_step_ok:
  assumes d: "\<forall>(j, v) \<in> set j2len. v \<le> i - alo" and i: "alo \<le> i"
    and st: "case st of (new, bi, bj, bs) \<Rightarrow>
               alo \<le> bi \<and> bi + bs \<le> Suc i \<and> (\<forall>(j, v) \<in> set new. v \<le> Suc i - alo)"
  shows "case flm_step i j2len st j of (new, bi, bj, bs) \<Rightarrow>
               alo \<le> bi \<and> bi + bs \<le> Suc i \<and> (\<forall>(j, v) \<in> set new. v \<le> Suc i - alo)"
proof -
  obtain new bi bj bs where s: "st = (new, bi, bj, bs)" by (cases st) auto
  have k: "j2len_get j2len j + 1 \<le> Suc i - alo"
    using j2len_get_le [OF d, of j] i by simp
  show ?thesis
    using st k i unfolding s flm_step_def by (auto simp: Let_def)
qed

lemma flm_steps_ok:
  assumes d: "\<forall>(j, v) \<in> set j2len. v \<le> i - alo" and i: "alo \<le> i"
  shows "(case st of (new, bi, bj, bs) \<Rightarrow>
               alo \<le> bi \<and> bi + bs \<le> Suc i \<and> (\<forall>(j, v) \<in> set new. v \<le> Suc i - alo))
     \<Longrightarrow> (case foldl (flm_step i j2len) st js of (new, bi, bj, bs) \<Rightarrow>
               alo \<le> bi \<and> bi + bs \<le> Suc i \<and> (\<forall>(j, v) \<in> set new. v \<le> Suc i - alo))"
proof (induction js arbitrary: st)
  case Nil
  then show ?case by simp
next
  case (Cons j js)
  show ?case
    unfolding foldl_Cons
    by (rule Cons.IH) (rule flm_step_ok [OF d i Cons.prems])
qed

lemma flm_row_ok:
  assumes "row_ok alo i st" and "alo \<le> i"
  shows "row_ok alo (Suc i) (flm_row a b blo bhi st i)"
proof -
  obtain j2len bi bj bs where s: "st = (j2len, bi, bj, bs)" by (cases st) auto
  have d: "\<forall>(j, v) \<in> set j2len. v \<le> i - alo" and b: "alo \<le> bi" "bi + bs \<le> i"
    using assms(1) unfolding s row_ok_def by auto
  have init: "case ([], bi, bj, bs) of (new, bi, bj, bs) \<Rightarrow>
               alo \<le> bi \<and> bi + bs \<le> Suc i \<and> (\<forall>(j, v) \<in> set new. v \<le> Suc i - alo)"
    using b by simp
  show ?thesis
    unfolding s flm_row_def row_ok_def prod.case
    by (rule flm_steps_ok [OF d assms(2) init])
qed

lemma flm_rows_ok:
  assumes "alo \<le> ahi"
  shows "row_ok alo ahi (foldl (flm_row a b blo bhi) ([], alo, blo, 0) [alo..<ahi])"
  using assms
proof (induction ahi)
  case 0
  then show ?case by (simp add: row_ok_def)
next
  case (Suc n)
  show ?case
  proof (cases "alo \<le> n")
    case True
    then show ?thesis using Suc.IH flm_row_ok [of alo n _ a b blo bhi] by simp
  next
    case False
    then have "alo = Suc n" using Suc.prems by simp
    then show ?thesis by (simp add: row_ok_def)
  qed
qed

lemma ext_left_ok:
  "alo \<le> i \<Longrightarrow> i + k \<le> ahi \<Longrightarrow> ext_left a b alo blo (i, j, k) = (i', j', k')
     \<Longrightarrow> alo \<le> i' \<and> i' + k' \<le> ahi"
proof (induction a b alo blo "(i, j, k)" arbitrary: i j k rule: ext_left.induct)
  case (1 a b alo blo i j k)
  show ?case
  proof (cases "alo < i \<and> blo < j \<and> a ! (i - 1) = b ! (j - 1)")
    case True
    have "ext_left a b alo blo (i, j, k) = ext_left a b alo blo (i - 1, j - 1, k + 1)"
      using True by (subst ext_left.simps) simp
    then have e: "ext_left a b alo blo (i - 1, j - 1, k + 1) = (i', j', k')"
      using "1.prems"(3) by simp
    have p1: "alo \<le> i - 1" using True by arith
    have p2: "i - 1 + (k + 1) \<le> ahi" using True "1.prems"(2) by arith
    show ?thesis by (rule "1.hyps" [OF True p1 p2 e])
  next
    case False
    have "ext_left a b alo blo (i, j, k) = (i, j, k)"
      by (subst ext_left.simps) (simp only: False if_False)
    then show ?thesis using "1.prems" by simp
  qed
qed

lemma ext_right_ok:
  "alo \<le> i \<Longrightarrow> i + k \<le> ahi \<Longrightarrow> ext_right a b ahi bhi (i, j, k) = (i', j', k')
     \<Longrightarrow> alo \<le> i' \<and> i' + k' \<le> ahi"
proof (induction a b ahi bhi "(i, j, k)" arbitrary: i j k rule: ext_right.induct)
  case (1 a b ahi bhi i j k)
  show ?case
  proof (cases "i + k < ahi \<and> j + k < bhi \<and> a ! (i + k) = b ! (j + k)")
    case True
    have "ext_right a b ahi bhi (i, j, k) = ext_right a b ahi bhi (i, j, k + 1)"
      using True by (subst ext_right.simps) simp
    then have e: "ext_right a b ahi bhi (i, j, k + 1) = (i', j', k')"
      using "1.prems"(3) by simp
    have p2: "i + (k + 1) \<le> ahi" using True by arith
    show ?thesis by (rule "1.hyps" [OF True "1.prems"(1) p2 e])
  next
    case False
    have "ext_right a b ahi bhi (i, j, k) = (i, j, k)"
      by (subst ext_right.simps) (simp only: False if_False)
    then show ?thesis using "1.prems" by simp
  qed
qed

lemma find_longest_match_bounds:
  assumes "alo \<le> ahi" and "find_longest_match a b alo ahi blo bhi = (i, j, k)"
  shows "alo \<le> i \<and> i + k \<le> ahi"
proof -
  obtain j2len bi bj bs where
    s: "foldl (flm_row a b blo bhi) ([], alo, blo, 0) [alo..<ahi] = (j2len, bi, bj, bs)"
    by (metis prod_cases4)
  have ok: "alo \<le> bi" "bi + bs \<le> ahi"
    using flm_rows_ok [OF assms(1), of a b blo bhi] unfolding s row_ok_def by auto
  obtain i1 j1 k1 where l: "ext_left a b alo blo (bi, bj, bs) = (i1, j1, k1)"
    by (metis prod_cases3)
  have ok1: "alo \<le> i1 \<and> i1 + k1 \<le> ahi" by (rule ext_left_ok [OF ok l])
  have "find_longest_match a b alo ahi blo bhi = ext_right a b ahi bhi (i1, j1, k1)"
    by (simp add: find_longest_match_def s l)
  then have "ext_right a b ahi bhi (i1, j1, k1) = (i, j, k)"
    using assms(2) by simp
  then show ?thesis using ok1 ext_right_ok by blast
qed

lemma find_longest_match_empty:
  assumes "ahi \<le> alo" and "find_longest_match a b alo ahi blo bhi = (i, j, k)"
  shows "k = 0"
proof -
  have l: "ext_left a b alo blo (alo, blo, 0) = (alo, blo, 0)"
    by (subst ext_left.simps) simp
  have r: "ext_right a b ahi bhi (alo, blo, 0) = (alo, blo, 0)"
    using assms(1) by (subst ext_right.simps) simp
  show ?thesis
    using assms by (simp add: find_longest_match_def l r)
qed

lemma matches_fuel:
  "ahi - alo < n \<Longrightarrow> ahi - alo < m
     \<Longrightarrow> matches n a b alo ahi blo bhi = matches m a b alo ahi blo bhi"
proof (induction n arbitrary: m alo ahi blo bhi)
  case 0
  then show ?case by simp
next
  case (Suc n)
  obtain m' where m: "m = Suc m'" using Suc.prems(2) by (cases m) auto
  obtain i j k where f: "find_longest_match a b alo ahi blo bhi = (i, j, k)"
    by (metis prod_cases3)
  show ?case
  proof (cases "k = 0")
    case True
    then show ?thesis by (simp add: m f)
  next
    case False
    then have lt: "alo < ahi" using find_longest_match_empty [OF _ f] by (cases "alo < ahi") auto
    then have b: "alo \<le> i" "i + k \<le> ahi"
      using find_longest_match_bounds [OF _ f] by auto
    have l: "matches n a b alo i blo j = matches m' a b alo i blo j"
      using Suc.prems b False by (intro Suc.IH) (auto simp: m)
    have r: "matches n a b (i + k) ahi (j + k) bhi = matches m' a b (i + k) ahi (j + k) bhi"
      using Suc.prems b False by (intro Suc.IH) (auto simp: m)
    show ?thesis by (simp add: m f l r)
  qed
qed

section \<open>City normalization\<close>

lemma rstrip_decomp: "s = rstrip s @ rev (takeWhile is_space (rev s))"
  unfolding rstrip_def by (metis rev_append rev_rev_ident takeWhile_dropWhile_id)

lemma rstrip_idem: "rstrip (rstrip s) = rstrip s"
  by (simp add: rstrip_def)

lemma lstrip_fixed: "s = [] \<or> \<not> is_space (hd s) \<Longrightarrow> lstrip s = s"
  by (cases s) (auto simp: lstrip_def)

lemma lstrip_head: "lstrip s = [] \<or> \<not> is_space (hd (lstrip s))"
  unfolding lstrip_def by (metis hd_dropWhile)

lemma strip_idem: "strip (strip s) = strip s"
proof -
  let ?t = "lstrip s"
  have "lstrip (rstrip ?t) = rstrip ?t"
  proof (cases "rstrip ?t = []")
    case True
    then show ?thesis by (simp add: lstrip_def)
  next
    case False
    have "?t = rstrip ?t @ rev (takeWhile is_space (rev ?t))" by (rule rstrip_decomp)
    then have "hd ?t = hd (rstrip ?t)" using False by (metis hd_append2)
    moreover have "?t \<noteq> []" using False by (auto simp: rstrip_def)
    ultimately have "\<not> is_space (hd (rstrip ?t))" using lstrip_head [of s] by auto
    then show ?thesis by (intro lstrip_fixed) simp
  qed
  then show ?thesis by (simp add: strip_def rstrip_idem)
qed

lemma normalize_city_unfold:
  "normalize_city city =
     (let c = lower (strip city)
      in if c = [] then strip city
         else if c \<in> set lj_variants \<or> sublist ''ljubl'' c then ''Ljubljana''
         else if 75 / 100 \<le> ratio c ''ljubljana'' then ''Ljubljana''
         else (case map_of known c of Some v \<Rightarrow> v | None \<Rightarrow> strip city))"
  by (simp add: normalize_city_def Let_def strip_lower strip_idem cong: if_cong option.case_cong)

lemma normalize_city_strip: "normalize_city (strip city) = normalize_city city"
  by (simp add: normalize_city_unfold strip_idem cong: if_cong option.case_cong)

lemma ratio_empty: "ratio ([]::string) ''ljubljana'' = 0"
  by code_simp

lemma norm_Ljubljana: "normalize_city ''Ljubljana'' = ''Ljubljana''"
  by code_simp

lemma norm_known: "list_all (\<lambda>(k, v). normalize_city v = v) known"
  by code_simp

lemma normalize_city_cases:
  "normalize_city city = ''Ljubljana''
   \<or> (\<exists>v. map_of known (lower (strip city)) = Some v \<and> normalize_city city = v)
   \<or> normalize_city city = strip city"
  by (cases "map_of known (lower (strip city))") (simp_all add: normalize_city_unfold Let_def)

lemma normalize_city_idem: "normalize_city (normalize_city city) = normalize_city city"
proof -
  let ?c = "lower (strip city)"
  from normalize_city_cases [of city]
  consider (lj) "normalize_city city = ''Ljubljana''"
    | (kn) v where "map_of known ?c = Some v" "normalize_city city = v"
    | (raw) "normalize_city city = strip city"
    by blast
  then show ?thesis
  proof cases
    case lj
    then show ?thesis by (simp add: norm_Ljubljana)
  next
    case kn
    from kn(1) have "(?c, v) \<in> set known" by (rule map_of_SomeD)
    then have "normalize_city v = v" using norm_known by (auto simp: list_all_iff)
    then show ?thesis using kn(2) by simp
  next
    case raw
    then show ?thesis by (simp add: normalize_city_strip)
  qed
qed

text \<open>
  C6.  Each curated misspelling is one of the variants.  Whenever the lower-cased trimmed
  city is a variant, contains \<open>ljubl\<close>, or has a similarity ratio of at least 0.75 to
  \<open>ljubljana\<close>, \<open>normalize_city\<close> returns exactly \<open>Ljubljana\<close>; a city that matches none of
  these rules and is not in the table of known cities is returned trimmed and otherwise
  unchanged; and \<open>normalize_city\<close> is idempotent.
\<close>

theorem normalize_city_spec:
  "set [''ljublajan'', ''liubljana'', ''lubljana'', ''ljublijana'', ''ljubljkana'', ''leobliana'']
     \<subseteq> set lj_variants
   \<and> (lower (strip city) \<in> set lj_variants \<or> sublist ''ljubl'' (lower (strip city))
        \<or> 75 / 100 \<le> ratio (lower (strip city)) ''ljubljana''
      \<longrightarrow> normalize_city city = ''Ljubljana'')
   \<and> (lower (strip city) \<notin> set lj_variants \<and> \<not> sublist ''ljubl'' (lower (strip city))
        \<and> ratio (lower (strip city)) ''ljubljana'' < 75 / 100
        \<and> map_of known (lower (strip city)) = None
      \<longrightarrow> normalize_city city = strip city)
   \<and> normalize_city (normalize_city city) = normalize_city city"
proof (intro conjI impI)
  show "set [''ljublajan'', ''liubljana'', ''lubljana'', ''ljublijana'', ''ljubljkana'', ''leobliana'']
     \<subseteq> set lj_variants"
    by (simp add: lj_variants_def)
next
  assume h: "lower (strip city) \<in> set lj_variants \<or> sublist ''ljubl'' (lower (strip city))
        \<or> 75 / 100 \<le> ratio (lower (strip city)) ''ljubljana''"
  show "normalize_city city = ''Ljubljana''"
  proof (cases "lower (strip city) = []")
    case True
    then show ?thesis using h by (simp add: lj_variants_def ratio_empty)
  next
    case False
    then show ?thesis using h by (auto simp: normalize_city_unfold Let_def)
  qed
next
  assume "lower (strip city) \<notin> set lj_variants \<and> \<not> sublist ''ljubl'' (lower (strip city))
        \<and> ratio (lower (strip city)) ''ljubljana'' < 75 / 100
        \<and> map_of known (lower (strip city)) = None"
  then show "normalize_city city = strip city"
    by (simp add: normalize_city_unfold Let_def)
next
  show "normalize_city (normalize_city city) = normalize_city city"
    by (rule normalize_city_idem)
qed

theorem normalize_city_spec_witness:
  "75 / 100 \<le> ratio (lower (strip '' Lublana '')) ''ljubljana''
   \<and> normalize_city '' Lublana '' = ''Ljubljana''
   \<and> normalize_city ''LEOBLIANA'' = ''Ljubljana''
   \<and> normalize_city ''  Novo Mesto '' = ''Novo Mesto''
   \<and> normalize_city (normalize_city ''  Novo Mesto '') = normalize_city ''  Novo Mesto ''"
proof -
  have r: "75 / 100 \<le> ratio (lower (strip '' Lublana '')) ''ljubljana''" by code_simp
  have v: "lower (strip ''LEOBLIANA'') \<in> set lj_variants" by code_simp
  have n: "lower (strip ''  Novo Mesto '') \<notin> set lj_variants
        \<and> \<not> sublist ''ljubl'' (lower (strip ''  Novo Mesto ''))
        \<and> ratio (lower (strip ''  Novo Mesto '')) ''ljubljana'' < 75 / 100
        \<and> map_of known (lower (strip ''  Novo Mesto '')) = None" by code_simp
  have s: "strip ''  Novo Mesto '' = ''Novo Mesto''" by code_simp
  have a: "normalize_city '' Lublana '' = ''Ljubljana''"
    using r normalize_city_spec [of "'' Lublana ''"] by blast
  have b: "normalize_city ''LEOBLIANA'' = ''Ljubljana''"
    using v normalize_city_spec [of "''LEOBLIANA''"] by blast
  have c: "normalize_city ''  Novo Mesto '' = strip ''  Novo Mesto ''"
    using n normalize_city_spec [of "''  Novo Mesto ''"] by blast
  have d: "normalize_city (normalize_city ''  Novo Mesto '') = normalize_city ''  Novo Mesto ''"
    using normalize_city_spec [of "''  Novo Mesto ''"] by blast
  show ?thesis
    using r a b c d s by (simp only: simp_thms)
qed

end
